theory Spec2Isabelle
  imports Main "HOL-Library.Sublist"
begin

section \<open>Attribute values\<close>

text \<open>
  The repository is a Pulumi program: running it constructs resource declarations
  (\<^verbatim>\<open>new Kind("logical-name", {attributes}, {provider, dependsOn})\<close>) and exports
  output values. An attribute set is a nested JavaScript value. Besides literals it may
  hold a reference to an output of another declaration (\<^verbatim>\<open>cluster.kubeconfig\<close>),
  which is only known once that declaration has been materialised, a text made by
  \<^verbatim>\<open>JSON.stringify\<close>, and a callback applied to outputs (\<^verbatim>\<open>.apply(...)\<close>).
\<close>

datatype callback = AssumeRolePolicyCallback

datatype val =
    Str string
  | Num int
  | Bool bool
  | Enum string
  | Arr "val list"
  | Obj "(string \<times> val) list"
  | Ref string string
  | JsonText val
  | Apply callback "val list"
  | Fetched string string

text \<open>
  \<open>Ref n p\<close> is the output \<open>p\<close> of the declaration with logical name \<open>n\<close>;
  \<open>Enum e\<close> is a member of an enumeration of the provider SDK, kept by its qualified
  name; \<open>JsonText v\<close> is the text \<^verbatim>\<open>JSON.stringify(v)\<close>; \<open>Fetched u t\<close> is a
  file argument \<open>u\<close> (a path or URL) of a declaration that reads its file while it is
  constructed, together with the text \<open>t\<close> it read.
  \<open>refs v\<close> lists the declarations whose outputs the value \<open>v\<close> consumes.
\<close>

fun refs :: "val \<Rightarrow> string list" where
  "refs (Str s) = []"
| "refs (Num n) = []"
| "refs (Bool b) = []"
| "refs (Enum e) = []"
| "refs (Arr vs) = concat (map refs vs)"
| "refs (Obj kvs) = concat (map (\<lambda>kv. refs (snd kv)) kvs)"
| "refs (Ref n p) = [n]"
| "refs (JsonText v) = refs v"
| "refs (Apply f vs) = concat (map refs vs)"
| "refs (Fetched u t) = []"

text \<open>
  Reading a nested value: a property of an object, an element of an array. (No object
  literal of the programs repeats a key, so the first entry for a key is the only one.)
\<close>

datatype step = Key string | Idx nat

fun step_into :: "step \<Rightarrow> val \<Rightarrow> val option" where
  "step_into (Key k) (Obj kvs) = map_of kvs k"
| "step_into (Idx i) (Arr vs) = (if i < length vs then Some (vs ! i) else None)"
| "step_into s v = None"

fun at :: "step list \<Rightarrow> val \<Rightarrow> val option" where
  "at [] v = Some v"
| "at (s # ss) v = (case step_into s v of None \<Rightarrow> None | Some w \<Rightarrow> at ss w)"

section \<open>Identity trust wiring (index.ts, albControllerRole)\<close>

text \<open>
  \<^verbatim>\<open>String.prototype.replace(pattern, replacement)\<close> with a string pattern replaces the
  first occurrence of the pattern, wherever it stands, and leaves a string without an
  occurrence unchanged. (The replacement used in the program is the empty string, so the
  \<^verbatim>\<open>$\<close> patterns of a replacement play no part.)
\<close>

fun replace :: "string \<Rightarrow> string \<Rightarrow> string \<Rightarrow> string" where
  "replace [] pat rep = (if pat = [] then rep else [])"
| "replace (c # cs) pat rep =
     (if prefix pat (c # cs) then rep @ drop (length pat) (c # cs)
      else c # replace cs pat rep)"

text \<open>
  The callback of \<^verbatim>\<open>pulumi.all([oidcProvider.arn, oidcProvider.url]).apply(([arn, url]) => ...)\<close>:
  the object literal, and the text the callback returns.
\<close>

definition assumeRolePolicyDocument :: "string \<Rightarrow> string \<Rightarrow> val" where
  "assumeRolePolicyDocument arn url =
     (let oidcUrl = replace url ''https://'' '''' in
      Obj [
        (''Version'', Str ''2012-10-17''),
        (''Statement'', Arr [
          Obj [
            (''Effect'', Str ''Allow''),
            (''Principal'', Obj [(''Federated'', Str arn)]),
            (''Action'', Str ''sts:AssumeRoleWithWebIdentity''),
            (''Condition'', Obj [
              (''StringEquals'', Obj [
                (oidcUrl @ '':sub'',
                   Str ''system:serviceaccount:kube-system:aws-load-balancer-controller''),
                (oidcUrl @ '':aud'', Str ''sts.amazonaws.com'')])])]])])"

definition assumeRolePolicy :: "string \<Rightarrow> string \<Rightarrow> val" where
  "assumeRolePolicy arn url = JsonText (assumeRolePolicyDocument arn url)"

fun run_callback :: "callback \<Rightarrow> string list \<Rightarrow> val option" where
  "run_callback AssumeRolePolicyCallback [arn, url] = Some (assumeRolePolicy arn url)"
| "run_callback AssumeRolePolicyCallback args = None"

section \<open>Resource declarations\<close>

record decl =
  name :: string
  kind :: string
  attrs :: val
  provider :: "string option"
  dependsOn :: "string list"

text \<open>
  \<open>name\<close> is the logical name (the constructor's first argument), \<open>kind\<close> the
  constructor, \<open>provider\<close> and \<open>dependsOn\<close> the resource options, given by the logical
  names of the declarations they mention. \<open>out d p\<close> is the source's \<^verbatim>\<open>d.p\<close>.
\<close>

definition out :: "decl \<Rightarrow> string \<Rightarrow> val" where
  "out d p = Ref (name d) p"

definition consumes :: "decl \<Rightarrow> string list" where
  "consumes d = remdups (refs (attrs d))"

definition provider_edge :: "decl \<Rightarrow> string list" where
  "provider_edge d = (case provider d of None \<Rightarrow> [] | Some p \<Rightarrow> [p])"

definition predecessors :: "decl \<Rightarrow> string list" where
  "predecessors d = dependsOn d @ provider_edge d @ consumes d"

text \<open>
  What the program takes from outside. The configuration is the stack's bag of values,
  read with \<^verbatim>\<open>config.get(key)\<close>. The environment holds the results of the program's
  lookups: \<^verbatim>\<open>aws.getRegionOutput().name\<close>, the id of \<^verbatim>\<open>aws.ec2.getVpc({default: true})\<close>,
  the ids of \<^verbatim>\<open>aws.ec2.getSubnets\<close> filtered by a VPC id, and the text of a file that
  \<^verbatim>\<open>k8s.yaml.ConfigFile\<close> fetches from a URL. Three long literal texts of
  index.ts (the IAM policy text of the load-balancer controller, the shell script of the
  backend container and the HTML page of the frontend) are carried as a record of
  strings: no property below depends on their content, and every theorem holds for
  any content.
\<close>

type_synonym config = "string \<rightharpoonup> string"

record environment =
  region :: string
  defaultVpc :: string
  subnets :: "(string \<times> string list) list"
  files :: "(string \<times> string) list"

record literals =
  albControllerPolicyText :: string
  backendServerScript :: string
  indexHtml :: string

definition getSubnets :: "environment \<Rightarrow> string \<Rightarrow> string list" where
  "getSubnets env vpcId = (case map_of (subnets env) vpcId of None \<Rightarrow> [] | Some ids \<Rightarrow> ids)"

definition fetch :: "environment \<Rightarrow> string \<Rightarrow> string" where
  "fetch env url = (case map_of (files env) url of None \<Rightarrow> [] | Some t \<Rightarrow> t)"

section \<open>The declarations of index.ts\<close>

definition vpc :: decl where
  "vpc = \<lparr>
     name = ''eks-vpc'', kind = ''awsx.ec2.Vpc'',
     attrs = Obj [
       (''cidrBlock'', Str ''10.0.0.0/16''),
       (''numberOfAvailabilityZones'', Num 3),
       (''subnetSpecs'', Arr [
         Obj [(''type'', Enum ''awsx.ec2.SubnetType.Public''), (''cidrMask'', Num 20)],
         Obj [(''type'', Enum ''awsx.ec2.SubnetType.Private''), (''cidrMask'', Num 20)]]),
       (''natGateways'', Obj [(''strategy'', Enum ''awsx.ec2.NatGatewayStrategy.Single'')]),
       (''tags'', Obj [(''Name'', Str ''eks-vpc''), (''Environment'', Str ''dev'')])],
     provider = None, dependsOn = []\<rparr>"

definition cluster :: decl where
  "cluster = \<lparr>
     name = ''eks-cluster'', kind = ''eks.Cluster'',
     attrs = Obj [
       (''vpcId'', out vpc ''vpcId''),
       (''privateSubnetIds'', out vpc ''privateSubnetIds''),
       (''publicSubnetIds'', out vpc ''publicSubnetIds''),
       (''autoMode'', Obj [(''enabled'', Bool True)]),
       (''authenticationMode'', Enum ''eks.AuthenticationMode.Api''),
       (''skipDefaultNodeGroup'', Bool True),
       (''skipDefaultSecurityGroups'', Bool True),
       (''createOidcProvider'', Bool True),
       (''version'', Str ''1.31''),
       (''enabledClusterLogTypes'', Arr [
         Str ''api'', Str ''audit'', Str ''authenticator'', Str ''controllerManager'',
         Str ''scheduler'']),
       (''tags'', Obj [(''Name'', Str ''eks-auto-cluster''), (''Environment'', Str ''dev'')])],
     provider = None, dependsOn = []\<rparr>"

definition k8sProvider :: decl where
  "k8sProvider = \<lparr>
     name = ''k8s-provider'', kind = ''k8s.Provider'',
     attrs = Obj [(''kubeconfig'', out cluster ''kubeconfig'')],
     provider = None, dependsOn = []\<rparr>"

text \<open>
  \<^verbatim>\<open>k8s.yaml.ConfigFile\<close> fetches its file while the program builds the graph, and the
  text it gets decides the children the component registers. The declaration carries the
  URL together with the fetched text.
\<close>

definition gatewayApiCrdsFile :: string where
  "gatewayApiCrdsFile =
     ''https://github.com/kubernetes-sigs/gateway-api/releases/download/v1.2.1/standard-install.yaml''"

definition gatewayApiCrds :: "environment \<Rightarrow> decl" where
  "gatewayApiCrds env = \<lparr>
     name = ''gateway-api-crds'', kind = ''k8s.yaml.ConfigFile'',
     attrs = Obj [
       (''file'', Fetched gatewayApiCrdsFile (fetch env gatewayApiCrdsFile))],
     provider = Some (name k8sProvider), dependsOn = []\<rparr>"

definition albControllerRole :: decl where
  "albControllerRole = \<lparr>
     name = ''alb-controller-role'', kind = ''aws.iam.Role'',
     attrs = Obj [
       (''assumeRolePolicy'', Apply AssumeRolePolicyCallback [
          out cluster ''core.oidcProvider.arn'', out cluster ''core.oidcProvider.url''])],
     provider = None, dependsOn = []\<rparr>"

definition albControllerPolicy :: "literals \<Rightarrow> decl" where
  "albControllerPolicy lit = \<lparr>
     name = ''alb-controller-policy'', kind = ''aws.iam.Policy'',
     attrs = Obj [(''policy'', Str (albControllerPolicyText lit))],
     provider = None, dependsOn = []\<rparr>"

definition albControllerPolicyAttachment :: "literals \<Rightarrow> decl" where
  "albControllerPolicyAttachment lit = \<lparr>
     name = ''alb-controller-policy-attachment'', kind = ''aws.iam.RolePolicyAttachment'',
     attrs = Obj [
       (''role'', out albControllerRole ''name''),
       (''policyArn'', out (albControllerPolicy lit) ''arn'')],
     provider = None, dependsOn = []\<rparr>"

definition awsLoadBalancerController :: "literals \<Rightarrow> environment \<Rightarrow> decl" where
  "awsLoadBalancerController lit env = \<lparr>
     name = ''aws-load-balancer-controller'', kind = ''k8s.helm.v3.Release'',
     attrs = Obj [
       (''chart'', Str ''aws-load-balancer-controller''),
       (''version'', Str ''1.11.0''),
       (''repositoryOpts'', Obj [(''repo'', Str ''https://aws.github.io/eks-charts'')]),
       (''namespace'', Str ''kube-system''),
       (''values'', Obj [
         (''clusterName'', out cluster ''eksCluster.name''),
         (''serviceAccount'', Obj [
           (''create'', Bool True),
           (''name'', Str ''aws-load-balancer-controller''),
           (''annotations'', Obj [
             (''eks.amazonaws.com/role-arn'', out albControllerRole ''arn'')])]),
         (''region'', Str (region env)),
         (''vpcId'', out vpc ''vpcId'')])],
     provider = Some (name k8sProvider),
     dependsOn = [name (gatewayApiCrds env), name (albControllerPolicyAttachment lit)]\<rparr>"

definition appNamespace :: decl where
  "appNamespace = \<lparr>
     name = ''app-namespace'', kind = ''k8s.core.v1.Namespace'',
     attrs = Obj [(''metadata'', Obj [(''name'', Str ''two-tier-app'')])],
     provider = Some (name k8sProvider), dependsOn = []\<rparr>"

definition backendDeployment :: "literals \<Rightarrow> decl" where
  "backendDeployment lit = \<lparr>
     name = ''backend'', kind = ''k8s.apps.v1.Deployment'',
     attrs = Obj [
       (''metadata'', Obj [
         (''namespace'', out appNamespace ''metadata.name''),
         (''labels'', Obj [(''app'', Str ''backend'')])]),
       (''spec'', Obj [
         (''replicas'', Num 2),
         (''selector'', Obj [(''matchLabels'', Obj [(''app'', Str ''backend'')])]),
         (''template'', Obj [
           (''metadata'', Obj [(''labels'', Obj [(''app'', Str ''backend'')])]),
           (''spec'', Obj [
             (''containers'', Arr [
               Obj [
                 (''name'', Str ''backend''),
                 (''image'', Str ''node:20-alpine''),
                 (''command'', Arr [Str ''/bin/sh'']),
                 (''args'', Arr [Str ''-c'', Str (backendServerScript lit)]),
                 (''ports'', Arr [Obj [(''containerPort'', Num 3000), (''name'', Str ''http'')]]),
                 (''env'', Arr [Obj [(''name'', Str ''NODE_ENV''), (''value'', Str ''production'')]]),
                 (''resources'', Obj [
                   (''requests'', Obj [(''cpu'', Str ''100m''), (''memory'', Str ''128Mi'')]),
                   (''limits'', Obj [(''cpu'', Str ''500m''), (''memory'', Str ''512Mi'')])]),
                 (''livenessProbe'', Obj [
                   (''httpGet'', Obj [(''path'', Str ''/health''), (''port'', Num 3000)]),
                   (''initialDelaySeconds'', Num 30),
                   (''periodSeconds'', Num 10)]),
                 (''readinessProbe'', Obj [
                   (''httpGet'', Obj [(''path'', Str ''/health''), (''port'', Num 3000)]),
                   (''initialDelaySeconds'', Num 10),
                   (''periodSeconds'', Num 5)])]])])])])],
     provider = Some (name k8sProvider), dependsOn = []\<rparr>"

definition backendService :: decl where
  "backendService = \<lparr>
     name = ''backend-service'', kind = ''k8s.core.v1.Service'',
     attrs = Obj [
       (''metadata'', Obj [
         (''namespace'', out appNamespace ''metadata.name''),
         (''name'', Str ''backend'')]),
       (''spec'', Obj [
         (''selector'', Obj [(''app'', Str ''backend'')]),
         (''ports'', Arr [
           Obj [(''port'', Num 80), (''targetPort'', Num 3000), (''protocol'', Str ''TCP'')]]),
         (''type'', Str ''ClusterIP'')])],
     provider = Some (name k8sProvider), dependsOn = []\<rparr>"

definition backendHpa :: "literals \<Rightarrow> decl" where
  "backendHpa lit = \<lparr>
     name = ''backend-hpa'', kind = ''k8s.autoscaling.v2.HorizontalPodAutoscaler'',
     attrs = Obj [
       (''metadata'', Obj [
         (''namespace'', out appNamespace ''metadata.name''),
         (''name'', Str ''backend-hpa'')]),
       (''spec'', Obj [
         (''scaleTargetRef'', Obj [
           (''apiVersion'', Str ''apps/v1''),
           (''kind'', Str ''Deployment''),
           (''name'', out (backendDeployment lit) ''metadata.name'')]),
         (''minReplicas'', Num 2),
         (''maxReplicas'', Num 10),
         (''metrics'', Arr [
           Obj [
             (''type'', Str ''Resource''),
             (''resource'', Obj [
               (''name'', Str ''cpu''),
               (''target'', Obj [
                 (''type'', Str ''Utilization''),
                 (''averageUtilization'', Num 70)])])]])])],
     provider = Some (name k8sProvider), dependsOn = []\<rparr>"

definition frontendHtml :: "literals \<Rightarrow> decl" where
  "frontendHtml lit = \<lparr>
     name = ''frontend-html'', kind = ''k8s.core.v1.ConfigMap'',
     attrs = Obj [
       (''metadata'', Obj [(''namespace'', out appNamespace ''metadata.name'')]),
       (''data'', Obj [(''index.html'', Str (indexHtml lit))])],
     provider = Some (name k8sProvider), dependsOn = []\<rparr>"

definition frontendDeployment :: "literals \<Rightarrow> decl" where
  "frontendDeployment lit = \<lparr>
     name = ''frontend'', kind = ''k8s.apps.v1.Deployment'',
     attrs = Obj [
       (''metadata'', Obj [
         (''namespace'', out appNamespace ''metadata.name''),
         (''labels'', Obj [(''app'', Str ''frontend'')])]),
       (''spec'', Obj [
         (''replicas'', Num 2),
         (''selector'', Obj [(''matchLabels'', Obj [(''app'', Str ''frontend'')])]),
         (''template'', Obj [
           (''metadata'', Obj [(''labels'', Obj [(''app'', Str ''frontend'')])]),
           (''spec'', Obj [
             (''containers'', Arr [
               Obj [
                 (''name'', Str ''frontend''),
                 (''image'', Str ''nginx:alpine''),
                 (''ports'', Arr [Obj [(''containerPort'', Num 80), (''name'', Str ''http'')]]),
                 (''volumeMounts'', Arr [
                   Obj [(''name'', Str ''html''), (''mountPath'', Str ''/usr/share/nginx/html'')]]),
                 (''resources'', Obj [
                   (''requests'', Obj [(''cpu'', Str ''50m''), (''memory'', Str ''64Mi'')]),
                   (''limits'', Obj [(''cpu'', Str ''200m''), (''memory'', Str ''256Mi'')])])]]),
             (''volumes'', Arr [
               Obj [
                 (''name'', Str ''html''),
                 (''configMap'', Obj [
                   (''name'', out (frontendHtml lit) ''metadata.name'')])]])])])])],
     provider = Some (name k8sProvider), dependsOn = []\<rparr>"

definition frontendService :: decl where
  "frontendService = \<lparr>
     name = ''frontend-service'', kind = ''k8s.core.v1.Service'',
     attrs = Obj [
       (''metadata'', Obj [
         (''namespace'', out appNamespace ''metadata.name''),
         (''name'', Str ''frontend'')]),
       (''spec'', Obj [
         (''selector'', Obj [(''app'', Str ''frontend'')]),
         (''ports'', Arr [
           Obj [(''port'', Num 80), (''targetPort'', Num 80), (''protocol'', Str ''TCP'')]]),
         (''type'', Str ''ClusterIP'')])],
     provider = Some (name k8sProvider), dependsOn = []\<rparr>"

definition appGateway :: "literals \<Rightarrow> environment \<Rightarrow> decl" where
  "appGateway lit env = \<lparr>
     name = ''app-gateway'', kind = ''k8s.apiextensions.CustomResource'',
     attrs = Obj [
       (''apiVersion'', Str ''gateway.networking.k8s.io/v1''),
       (''kind'', Str ''Gateway''),
       (''metadata'', Obj [
         (''namespace'', out appNamespace ''metadata.name''),
         (''name'', Str ''app-gateway'')]),
       (''spec'', Obj [
         (''gatewayClassName'', Str ''aws-alb''),
         (''listeners'', Arr [
           Obj [(''name'', Str ''http''), (''protocol'', Str ''HTTP''), (''port'', Num 80)]])])],
     provider = Some (name k8sProvider),
     dependsOn = [name (awsLoadBalancerController lit env)]\<rparr>"

definition frontendRoute :: "literals \<Rightarrow> environment \<Rightarrow> decl" where
  "frontendRoute lit env = \<lparr>
     name = ''frontend-route'', kind = ''k8s.apiextensions.CustomResource'',
     attrs = Obj [
       (''apiVersion'', Str ''gateway.networking.k8s.io/v1''),
       (''kind'', Str ''HTTPRoute''),
       (''metadata'', Obj [
         (''namespace'', out appNamespace ''metadata.name''),
         (''name'', Str ''frontend-route'')]),
       (''spec'', Obj [
         (''parentRefs'', Arr [Obj [(''name'', out (appGateway lit env) ''metadata.name'')]]),
         (''rules'', Arr [
           Obj [
             (''matches'', Arr [
               Obj [(''path'', Obj [(''type'', Str ''PathPrefix''), (''value'', Str ''/api'')])]]),
             (''backendRefs'', Arr [
               Obj [(''name'', out backendService ''metadata.name''), (''port'', Num 80)]])],
           Obj [
             (''matches'', Arr [
               Obj [(''path'', Obj [(''type'', Str ''PathPrefix''), (''value'', Str ''/'')])]]),
             (''backendRefs'', Arr [
               Obj [(''name'', out frontendService ''metadata.name''), (''port'', Num 80)]])]])])],
     provider = Some (name k8sProvider),
     dependsOn = [name (appGateway lit env)]\<rparr>"

section \<open>Running a program: registration and exports\<close>

text \<open>
  Every \<^verbatim>\<open>new Kind(name, ...)\<close> registers its declaration with the run, in the order of
  the program text. A run that registered everything ends with its declarations and its
  exports. A declaration of a component (the VPC, the cluster, the file of the Gateway
  API definitions) stands for itself: the children the SDK creates for it are not part
  of the program text. A run can fail: with a repeated name, or with a call to the
  platform that fails.
\<close>

datatype error = DuplicateName string | CallFailed string

record graph =
  decls :: "decl list"
  outputs :: "(string \<times> val) list"

text \<open>
  Modelled from the spec: the refusal of a repeated logical name. The repository has no
  code that refuses a name; the refusal belongs to the engine the program registers its
  declarations with. The spec words it as the builder's: construction "can only fail if
  two declarations claim the same logical name, which the builder must reject before
  handoff". \<open>register\<close> follows these words and compares the logical name alone. (The
  engine compares the kind together with the logical name, so it refuses no more than
  \<open>register\<close> does: a program that passes here passes there.)
\<close>

definition register :: "decl \<Rightarrow> decl list \<Rightarrow> error + decl list" where
  "register d ds =
     (if name d \<in> set (map name ds) then Inl (DuplicateName (name d)) else Inr (ds @ [d]))"

fun register_all :: "decl list \<Rightarrow> decl list \<Rightarrow> error + decl list" where
  "register_all [] ds = Inr ds"
| "register_all (d # rest) ds =
     (case register d ds of Inl e \<Rightarrow> Inl e | Inr ds' \<Rightarrow> register_all rest ds')"

definition run :: "decl list \<Rightarrow> (string \<times> val) list \<Rightarrow> error + graph" where
  "run ds exports =
     (case register_all ds [] of
        Inl e \<Rightarrow> Inl e
      | Inr registered \<Rightarrow> Inr \<lparr>decls = registered, outputs = exports\<rparr>)"

text \<open>
  index.ts, the variant with an auto-mode cluster and Gateway API routing. It creates
  its \<^verbatim>\<open>pulumi.Config\<close> and reads no value from it.
\<close>

definition gateway_declarations :: "literals \<Rightarrow> environment \<Rightarrow> decl list" where
  "gateway_declarations lit env = [
     vpc, cluster, k8sProvider, gatewayApiCrds env, albControllerRole,
     albControllerPolicy lit, albControllerPolicyAttachment lit,
     awsLoadBalancerController lit env, appNamespace, backendDeployment lit,
     backendService, backendHpa lit, frontendHtml lit, frontendDeployment lit,
     frontendService, appGateway lit env, frontendRoute lit env]"

definition gateway_exports :: "(string \<times> val) list" where
  "gateway_exports = [
     (''kubeconfig'', out cluster ''kubeconfig''),
     (''clusterName'', out cluster ''eksCluster.name''),
     (''vpcId'', out vpc ''vpcId''),
     (''appNamespaceName'', out appNamespace ''metadata.name''),
     (''frontendServiceName'', out frontendService ''metadata.name''),
     (''backendServiceName'', out backendService ''metadata.name'')]"

definition gateway_program :: "literals \<Rightarrow> config \<Rightarrow> environment \<Rightarrow> error + graph" where
  "gateway_program lit cfg env = run (gateway_declarations lit env) gateway_exports"

section \<open>The declarations of the ingress variant of index.ts\<close>

text \<open>
  The second program text of the repository (a fixed node group in the default VPC, an
  NGINX ingress with certificates) follows the notes in AWS_IAM_SETUP.md. Where it uses
  a name of index.ts, the name carries the suffix \<open>_ingress\<close> here.

  \<^verbatim>\<open>config.get(key) || fallback\<close>: \<^verbatim>\<open>get\<close> gives \<^verbatim>\<open>undefined\<close> for a key that is
  not set, and \<^verbatim>\<open>||\<close> takes the fallback for \<^verbatim>\<open>undefined\<close> and for the empty string.
\<close>

definition config_get :: "config \<Rightarrow> string \<Rightarrow> string option" where
  "config_get cfg key = cfg key"

definition or_else :: "string option \<Rightarrow> string \<Rightarrow> string" where
  "or_else v fallback =
     (case v of None \<Rightarrow> fallback | Some s \<Rightarrow> if s = [] then fallback else s)"

definition domain :: "config \<Rightarrow> string" where
  "domain cfg = or_else (config_get cfg ''domain'') ''example.com''"

definition email :: "config \<Rightarrow> string" where
  "email cfg = or_else (config_get cfg ''letsencryptEmail'') ''admin@example.com''"

definition cluster_ingress :: "environment \<Rightarrow> decl" where
  "cluster_ingress env = \<lparr>
     name = ''eks-cluster'', kind = ''eks.Cluster'',
     attrs = Obj [
       (''vpcId'', Str (defaultVpc env)),
       (''subnetIds'', Arr (map Str (getSubnets env (defaultVpc env)))),
       (''instanceType'', Str ''t3.small''),
       (''desiredCapacity'', Num 3),
       (''minSize'', Num 3),
       (''maxSize'', Num 3),
       (''createOidcProvider'', Bool True)],
     provider = None, dependsOn = []\<rparr>"

definition k8sProvider_ingress :: "environment \<Rightarrow> decl" where
  "k8sProvider_ingress env = \<lparr>
     name = ''k8s-provider'', kind = ''k8s.Provider'',
     attrs = Obj [(''kubeconfig'', out (cluster_ingress env) ''kubeconfig'')],
     provider = None, dependsOn = []\<rparr>"

definition nginxIngress :: "environment \<Rightarrow> decl" where
  "nginxIngress env = \<lparr>
     name = ''nginx-ingress'', kind = ''k8s.helm.v3.Release'',
     attrs = Obj [
       (''chart'', Str ''ingress-nginx''),
       (''version'', Str ''4.11.3''),
       (''repositoryOpts'', Obj [(''repo'', Str ''https://kubernetes.github.io/ingress-nginx'')]),
       (''namespace'', Str ''ingress-nginx''),
       (''createNamespace'', Bool True),
       (''values'', Obj [
         (''controller'', Obj [
           (''service'', Obj [(''type'', Str ''LoadBalancer'')]),
           (''metrics'', Obj [(''enabled'', Bool True)])])])],
     provider = Some (name (k8sProvider_ingress env)), dependsOn = []\<rparr>"

definition certManager :: "environment \<Rightarrow> decl" where
  "certManager env = \<lparr>
     name = ''cert-manager'', kind = ''k8s.helm.v3.Release'',
     attrs = Obj [
       (''chart'', Str ''cert-manager''),
       (''version'', Str ''v1.16.2''),
       (''repositoryOpts'', Obj [(''repo'', Str ''https://charts.jetstack.io'')]),
       (''namespace'', Str ''cert-manager''),
       (''createNamespace'', Bool True),
       (''values'', Obj [(''crds'', Obj [(''enabled'', Bool True)])])],
     provider = Some (name (k8sProvider_ingress env)), dependsOn = []\<rparr>"

definition appNamespace_ingress :: "environment \<Rightarrow> decl" where
  "appNamespace_ingress env = \<lparr>
     name = ''app-namespace'', kind = ''k8s.core.v1.Namespace'',
     attrs = Obj [(''metadata'', Obj [(''name'', Str ''microservices-app'')])],
     provider = Some (name (k8sProvider_ingress env)), dependsOn = []\<rparr>"

definition letsencryptIssuer :: "config \<Rightarrow> environment \<Rightarrow> decl" where
  "letsencryptIssuer cfg env = \<lparr>
     name = ''letsencrypt-issuer'', kind = ''k8s.apiextensions.CustomResource'',
     attrs = Obj [
       (''apiVersion'', Str ''cert-manager.io/v1''),
       (''kind'', Str ''ClusterIssuer''),
       (''metadata'', Obj [(''name'', Str ''letsencrypt-prod'')]),
       (''spec'', Obj [
         (''acme'', Obj [
           (''server'', Str ''https://acme-v02.api.letsencrypt.org/directory''),
           (''email'', Str (email cfg)),
           (''privateKeySecretRef'', Obj [(''name'', Str ''letsencrypt-prod'')]),
           (''solvers'', Arr [
             Obj [(''http01'', Obj [(''ingress'', Obj [(''class'', Str ''nginx'')])])]])])])],
     provider = Some (name (k8sProvider_ingress env)),
     dependsOn = [name (certManager env)]\<rparr>"

definition redisDeployment :: "environment \<Rightarrow> decl" where
  "redisDeployment env = \<lparr>
     name = ''redis'', kind = ''k8s.apps.v1.Deployment'',
     attrs = Obj [
       (''metadata'', Obj [
         (''namespace'', out (appNamespace_ingress env) ''metadata.name''),
         (''labels'', Obj [(''app'', Str ''redis'')])]),
       (''spec'', Obj [
         (''replicas'', Num 1),
         (''selector'', Obj [(''matchLabels'', Obj [(''app'', Str ''redis'')])]),
         (''template'', Obj [
           (''metadata'', Obj [(''labels'', Obj [(''app'', Str ''redis'')])]),
           (''spec'', Obj [
             (''containers'', Arr [
               Obj [
                 (''name'', Str ''redis''),
                 (''image'', Str ''redis:7-alpine''),
                 (''ports'', Arr [Obj [(''containerPort'', Num 6379)]]),
                 (''resources'', Obj [
                   (''requests'', Obj [(''cpu'', Str ''100m''), (''memory'', Str ''128Mi'')]),
                   (''limits'', Obj [(''cpu'', Str ''200m''), (''memory'', Str ''256Mi'')])])]])])])])],
     provider = Some (name (k8sProvider_ingress env)), dependsOn = []\<rparr>"

definition redisService :: "environment \<Rightarrow> decl" where
  "redisService env = \<lparr>
     name = ''redis-service'', kind = ''k8s.core.v1.Service'',
     attrs = Obj [
       (''metadata'', Obj [
         (''namespace'', out (appNamespace_ingress env) ''metadata.name''),
         (''name'', Str ''redis'')]),
       (''spec'', Obj [
         (''selector'', Obj [(''app'', Str ''redis'')]),
         (''ports'', Arr [Obj [(''port'', Num 6379), (''targetPort'', Num 6379)]]),
         (''type'', Str ''ClusterIP'')])],
     provider = Some (name (k8sProvider_ingress env)), dependsOn = []\<rparr>"

definition backendDeployment_ingress :: "environment \<Rightarrow> decl" where
  "backendDeployment_ingress env = \<lparr>
     name = ''backend'', kind = ''k8s.apps.v1.Deployment'',
     attrs = Obj [
       (''metadata'', Obj [
         (''namespace'', out (appNamespace_ingress env) ''metadata.name''),
         (''labels'', Obj [(''app'', Str ''backend'')])]),
       (''spec'', Obj [
         (''replicas'', Num 2),
         (''selector'', Obj [(''matchLabels'', Obj [(''app'', Str ''backend'')])]),
         (''template'', Obj [
           (''metadata'', Obj [(''labels'', Obj [(''app'', Str ''backend'')])]),
           (''spec'', Obj [
             (''containers'', Arr [
               Obj [
                 (''name'', Str ''backend''),
                 (''image'', Str ''hashicorp/http-echo:latest''),
                 (''args'', Arr [Str ''-text=Backend API v1.0'']),
                 (''ports'', Arr [Obj [(''containerPort'', Num 5678)]]),
                 (''env'', Arr [
                   Obj [(''name'', Str ''REDIS_HOST''), (''value'', Str ''redis'')],
                   Obj [(''name'', Str ''REDIS_PORT''), (''value'', Str ''6379'')]]),
                 (''resources'', Obj [
                   (''requests'', Obj [(''cpu'', Str ''100m''), (''memory'', Str ''128Mi'')]),
                   (''limits'', Obj [(''cpu'', Str ''500m''), (''memory'', Str ''512Mi'')])])]])])])])],
     provider = Some (name (k8sProvider_ingress env)), dependsOn = []\<rparr>"

definition backendService_ingress :: "environment \<Rightarrow> decl" where
  "backendService_ingress env = \<lparr>
     name = ''backend-service'', kind = ''k8s.core.v1.Service'',
     attrs = Obj [
       (''metadata'', Obj [
         (''namespace'', out (appNamespace_ingress env) ''metadata.name''),
         (''name'', Str ''backend'')]),
       (''spec'', Obj [
         (''selector'', Obj [(''app'', Str ''backend'')]),
         (''ports'', Arr [Obj [(''port'', Num 80), (''targetPort'', Num 5678)]]),
         (''type'', Str ''ClusterIP'')])],
     provider = Some (name (k8sProvider_ingress env)), dependsOn = []\<rparr>"

definition backendHpa_ingress :: "environment \<Rightarrow> decl" where
  "backendHpa_ingress env = \<lparr>
     name = ''backend-hpa'', kind = ''k8s.autoscaling.v2.HorizontalPodAutoscaler'',
     attrs = Obj [
       (''metadata'', Obj [
         (''namespace'', out (appNamespace_ingress env) ''metadata.name''),
         (''name'', Str ''backend-hpa'')]),
       (''spec'', Obj [
         (''scaleTargetRef'', Obj [
           (''apiVersion'', Str ''apps/v1''),
           (''kind'', Str ''Deployment''),
           (''name'', out (backendDeployment_ingress env) ''metadata.name'')]),
         (''minReplicas'', Num 2),
         (''maxReplicas'', Num 10),
         (''metrics'', Arr [
           Obj [
             (''type'', Str ''Resource''),
             (''resource'', Obj [
               (''name'', Str ''cpu''),
               (''target'', Obj [
                 (''type'', Str ''Utilization''),
                 (''averageUtilization'', Num 70)])])]])])],
     provider = Some (name (k8sProvider_ingress env)), dependsOn = []\<rparr>"

definition frontendDeployment_ingress :: "environment \<Rightarrow> decl" where
  "frontendDeployment_ingress env = \<lparr>
     name = ''frontend'', kind = ''k8s.apps.v1.Deployment'',
     attrs = Obj [
       (''metadata'', Obj [
         (''namespace'', out (appNamespace_ingress env) ''metadata.name''),
         (''labels'', Obj [(''app'', Str ''frontend'')])]),
       (''spec'', Obj [
         (''replicas'', Num 2),
         (''selector'', Obj [(''matchLabels'', Obj [(''app'', Str ''frontend'')])]),
         (''template'', Obj [
           (''metadata'', Obj [(''labels'', Obj [(''app'', Str ''frontend'')])]),
           (''spec'', Obj [
             (''containers'', Arr [
               Obj [
                 (''name'', Str ''frontend''),
                 (''image'', Str ''nginx:alpine''),
                 (''ports'', Arr [Obj [(''containerPort'', Num 80)]]),
                 (''env'', Arr [
                   Obj [(''name'', Str ''BACKEND_URL''), (''value'', Str ''http://backend'')]]),
                 (''resources'', Obj [
                   (''requests'', Obj [(''cpu'', Str ''50m''), (''memory'', Str ''64Mi'')]),
                   (''limits'', Obj [(''cpu'', Str ''200m''), (''memory'', Str ''256Mi'')])])]])])])])],
     provider = Some (name (k8sProvider_ingress env)), dependsOn = []\<rparr>"

definition frontendService_ingress :: "environment \<Rightarrow> decl" where
  "frontendService_ingress env = \<lparr>
     name = ''frontend-service'', kind = ''k8s.core.v1.Service'',
     attrs = Obj [
       (''metadata'', Obj [
         (''namespace'', out (appNamespace_ingress env) ''metadata.name''),
         (''name'', Str ''frontend'')]),
       (''spec'', Obj [
         (''selector'', Obj [(''app'', Str ''frontend'')]),
         (''ports'', Arr [Obj [(''port'', Num 80), (''targetPort'', Num 80)]]),
         (''type'', Str ''ClusterIP'')])],
     provider = Some (name (k8sProvider_ingress env)), dependsOn = []\<rparr>"

definition appIngress :: "config \<Rightarrow> environment \<Rightarrow> decl" where
  "appIngress cfg env = \<lparr>
     name = ''app-ingress'', kind = ''k8s.networking.v1.Ingress'',
     attrs = Obj [
       (''metadata'', Obj [
         (''namespace'', out (appNamespace_ingress env) ''metadata.name''),
         (''annotations'', Obj [
           (''cert-manager.io/cluster-issuer'', Str ''letsencrypt-prod''),
           (''nginx.ingress.kubernetes.io/ssl-redirect'', Str ''true'')])]),
       (''spec'', Obj [
         (''ingressClassName'', Str ''nginx''),
         (''tls'', Arr [
           Obj [(''hosts'', Arr [Str (domain cfg)]), (''secretName'', Str ''app-tls-cert'')]]),
         (''rules'', Arr [
           Obj [
             (''host'', Str (domain cfg)),
             (''http'', Obj [
               (''paths'', Arr [
                 Obj [
                   (''path'', Str ''/api''),
                   (''pathType'', Str ''Prefix''),
                   (''backend'', Obj [
                     (''service'', Obj [
                       (''name'', out (backendService_ingress env) ''metadata.name''),
                       (''port'', Obj [(''number'', Num 80)])])])],
                 Obj [
                   (''path'', Str ''/''),
                   (''pathType'', Str ''Prefix''),
                   (''backend'', Obj [
                     (''service'', Obj [
                       (''name'', out (frontendService_ingress env) ''metadata.name''),
                       (''port'', Obj [(''number'', Num 80)])])])]])])]])])],
     provider = Some (name (k8sProvider_ingress env)),
     dependsOn = [name (nginxIngress env), name (letsencryptIssuer cfg env)]\<rparr>"

definition ingress_declarations :: "config \<Rightarrow> environment \<Rightarrow> decl list" where
  "ingress_declarations cfg env = [
     cluster_ingress env, k8sProvider_ingress env, nginxIngress env, certManager env,
     appNamespace_ingress env, letsencryptIssuer cfg env, redisDeployment env,
     redisService env, backendDeployment_ingress env, backendService_ingress env,
     backendHpa_ingress env, frontendDeployment_ingress env, frontendService_ingress env,
     appIngress cfg env]"

text \<open>
  \<^verbatim>\<open>pulumi.interpolate\<close> of a template whose only hole is the plain string
  \<^verbatim>\<open>domain\<close> is the concatenation. The command contains two apostrophes, written
  \<open>CHR 0x27\<close>.
\<close>

definition appUrl :: "config \<Rightarrow> val" where
  "appUrl cfg = Str (''https://'' @ domain cfg)"

definition getLoadBalancerCommand :: val where
  "getLoadBalancerCommand =
     Str (''kubectl get svc -n ingress-nginx ingress-nginx-controller -o jsonpath=''
          @ [CHR 0x27] @ ''{.status.loadBalancer.ingress[0].hostname}'' @ [CHR 0x27])"

definition ingress_exports :: "config \<Rightarrow> environment \<Rightarrow> (string \<times> val) list" where
  "ingress_exports cfg env = [
     (''kubeconfig'', out (cluster_ingress env) ''kubeconfig''),
     (''clusterName'', out (cluster_ingress env) ''eksCluster.name''),
     (''appUrl'', appUrl cfg),
     (''getLoadBalancerCommand'', getLoadBalancerCommand)]"

definition ingress_program :: "config \<Rightarrow> environment \<Rightarrow> error + graph" where
  "ingress_program cfg env = run (ingress_declarations cfg env) (ingress_exports cfg env)"

section \<open>Dependency edges and their order\<close>

text \<open>
  The edges of a declaration list, each from a predecessor to the declaration that names
  it; the check that every predecessor of a declaration is the logical name of an earlier
  declaration; and a topological sort, which repeatedly takes the first declaration all
  of whose predecessors have been taken, and fails when none is left to take.
\<close>

definition edges :: "decl list \<Rightarrow> (string \<times> string) list" where
  "edges ds = concat (map (\<lambda>d. map (\<lambda>p. (p, name d)) (predecessors d)) ds)"

fun declared_before :: "string list \<Rightarrow> decl list \<Rightarrow> bool" where
  "declared_before seen [] = True"
| "declared_before seen (d # ds) =
     (list_all (\<lambda>p. p \<in> set seen) (predecessors d) \<and> declared_before (seen @ [name d]) ds)"

definition no_forward_references :: "decl list \<Rightarrow> bool" where
  "no_forward_references ds = declared_before [] ds"

definition ready :: "string list \<Rightarrow> decl \<Rightarrow> bool" where
  "ready taken d = list_all (\<lambda>p. p \<in> set taken) (predecessors d)"

fun sort_from :: "nat \<Rightarrow> string list \<Rightarrow> decl list \<Rightarrow> string list option" where
  "sort_from n taken [] = Some taken"
| "sort_from 0 taken (d # ds) = None"
| "sort_from (Suc n) taken (d # ds) =
     (case find (ready taken) (d # ds) of
        None \<Rightarrow> None
      | Some r \<Rightarrow> sort_from n (taken @ [name r]) (remove1 r (d # ds)))"

definition topological_sort :: "decl list \<Rightarrow> string list option" where
  "topological_sort ds = sort_from (length ds) [] ds"

text \<open>The place of a logical name in a list of names (its length for a name not in it).\<close>

definition position :: "string list \<Rightarrow> string \<Rightarrow> nat" where
  "position ns x = length (takeWhile (\<lambda>y. y \<noteq> x) ns)"

section \<open>Calls to the platform that can fail\<close>

text \<open>
  The programs above take the results of their calls to the platform as given. A call
  can also fail: the file cannot be fetched, the provider has no region, the account has
  no default VPC, the subnets cannot be listed. A platform gives each call its answer, or
  none; a program whose call has no answer fails with that call, in the order in which
  the program text makes its calls, and otherwise builds its graph from the answers.
\<close>

record platform =
  regionAnswer :: "string option"
  defaultVpcAnswer :: "string option"
  subnetAnswers :: "(string \<times> string list) list"
  fileAnswers :: "(string \<times> string) list"

definition answers :: "platform \<Rightarrow> environment" where
  "answers p = \<lparr>
     region = (case regionAnswer p of None \<Rightarrow> [] | Some r \<Rightarrow> r),
     defaultVpc = (case defaultVpcAnswer p of None \<Rightarrow> [] | Some v \<Rightarrow> v),
     subnets = subnetAnswers p,
     files = fileAnswers p\<rparr>"

definition gateway_build :: "literals \<Rightarrow> config \<Rightarrow> platform \<Rightarrow> error + graph" where
  "gateway_build lit cfg p =
     (case map_of (fileAnswers p) gatewayApiCrdsFile of
        None \<Rightarrow> Inl (CallFailed ''k8s.yaml.ConfigFile'')
      | Some text \<Rightarrow>
          (case regionAnswer p of
             None \<Rightarrow> Inl (CallFailed ''aws.getRegionOutput'')
           | Some r \<Rightarrow> gateway_program lit cfg (answers p)))"

definition ingress_build :: "config \<Rightarrow> platform \<Rightarrow> error + graph" where
  "ingress_build cfg p =
     (case defaultVpcAnswer p of
        None \<Rightarrow> Inl (CallFailed ''aws.ec2.getVpc'')
      | Some vpcId \<Rightarrow>
          (case map_of (subnetAnswers p) vpcId of
             None \<Rightarrow> Inl (CallFailed ''aws.ec2.getSubnets'')
           | Some ids \<Rightarrow> ingress_program cfg (answers p)))"

section \<open>Reading a run's result\<close>

text \<open>
  The declaration of a run with a given logical name, the exported value with a given
  name, the names of all exports, and the pairs (consumer, producer) for which the
  consumer both consumes an output of the producer and lists it in \<open>dependsOn\<close>.
\<close>

definition find_declaration :: "string \<Rightarrow> error + graph \<Rightarrow> decl option" where
  "find_declaration n r = (case r of Inl e \<Rightarrow> None | Inr g \<Rightarrow> find (\<lambda>d. name d = n) (decls g))"

definition exported :: "string \<Rightarrow> error + graph \<Rightarrow> val option" where
  "exported n r = (case r of Inl e \<Rightarrow> None | Inr g \<Rightarrow> map_of (outputs g) n)"

definition output_names :: "error + graph \<Rightarrow> string list" where
  "output_names r = (case r of Inl e \<Rightarrow> [] | Inr g \<Rightarrow> map fst (outputs g))"

definition explicitly_declared :: "decl list \<Rightarrow> (string \<times> string) list" where
  "explicitly_declared ds =
     concat (map (\<lambda>d. map (\<lambda>p. (name d, p)) (filter (\<lambda>p. p \<in> set (dependsOn d)) (consumes d))) ds)"

section \<open>Facts about the declarations\<close>

lemma refs_map_Str [simp]: "concat (map refs (map Str xs)) = []"
  by (induction xs) simp_all

lemma vpc_facts [simp]:
  "name vpc = ''eks-vpc''"
  "dependsOn vpc = []"
  "provider vpc = None"
  "consumes vpc = []"
  "predecessors vpc = []"
  by (simp_all add: vpc_def out_def consumes_def predecessors_def provider_edge_def)

lemma cluster_facts [simp]:
  "name cluster = ''eks-cluster''"
  "dependsOn cluster = []"
  "provider cluster = None"
  "consumes cluster = [''eks-vpc'']"
  "predecessors cluster = [''eks-vpc'']"
  by (simp_all add: cluster_def out_def consumes_def predecessors_def provider_edge_def)

lemma k8sProvider_facts [simp]:
  "name k8sProvider = ''k8s-provider''"
  "dependsOn k8sProvider = []"
  "provider k8sProvider = None"
  "consumes k8sProvider = [''eks-cluster'']"
  "predecessors k8sProvider = [''eks-cluster'']"
  by (simp_all add: k8sProvider_def out_def consumes_def predecessors_def provider_edge_def)

lemma gatewayApiCrds_facts [simp]:
  "name (gatewayApiCrds env) = ''gateway-api-crds''"
  "dependsOn (gatewayApiCrds env) = []"
  "provider (gatewayApiCrds env) = Some ''k8s-provider''"
  "consumes (gatewayApiCrds env) = []"
  "predecessors (gatewayApiCrds env) = [''k8s-provider'']"
  by (simp_all add: gatewayApiCrds_def out_def consumes_def predecessors_def provider_edge_def)

lemma albControllerRole_facts [simp]:
  "name albControllerRole = ''alb-controller-role''"
  "dependsOn albControllerRole = []"
  "provider albControllerRole = None"
  "consumes albControllerRole = [''eks-cluster'']"
  "predecessors albControllerRole = [''eks-cluster'']"
  by (simp_all add: albControllerRole_def out_def consumes_def predecessors_def provider_edge_def)

lemma albControllerPolicy_facts [simp]:
  "name (albControllerPolicy lit) = ''alb-controller-policy''"
  "dependsOn (albControllerPolicy lit) = []"
  "provider (albControllerPolicy lit) = None"
  "consumes (albControllerPolicy lit) = []"
  "predecessors (albControllerPolicy lit) = []"
  by (simp_all add: albControllerPolicy_def out_def consumes_def predecessors_def provider_edge_def)

lemma albControllerPolicyAttachment_facts [simp]:
  "name (albControllerPolicyAttachment lit) = ''alb-controller-policy-attachment''"
  "dependsOn (albControllerPolicyAttachment lit) = []"
  "provider (albControllerPolicyAttachment lit) = None"
  "consumes (albControllerPolicyAttachment lit) = [''alb-controller-role'', ''alb-controller-policy'']"
  "predecessors (albControllerPolicyAttachment lit) = [''alb-controller-role'', ''alb-controller-policy'']"
  by (simp_all add: albControllerPolicyAttachment_def out_def consumes_def predecessors_def provider_edge_def)

lemma awsLoadBalancerController_facts [simp]:
  "name (awsLoadBalancerController lit env) = ''aws-load-balancer-controller''"
  "dependsOn (awsLoadBalancerController lit env) = [''gateway-api-crds'', ''alb-controller-policy-attachment'']"
  "provider (awsLoadBalancerController lit env) = Some ''k8s-provider''"
  "consumes (awsLoadBalancerController lit env) = [''eks-cluster'', ''alb-controller-role'', ''eks-vpc'']"
  "predecessors (awsLoadBalancerController lit env) = [''gateway-api-crds'', ''alb-controller-policy-attachment'', ''k8s-provider'', ''eks-cluster'', ''alb-controller-role'', ''eks-vpc'']"
  by (simp_all add: awsLoadBalancerController_def out_def consumes_def predecessors_def provider_edge_def)

lemma appNamespace_facts [simp]:
  "name appNamespace = ''app-namespace''"
  "dependsOn appNamespace = []"
  "provider appNamespace = Some ''k8s-provider''"
  "consumes appNamespace = []"
  "predecessors appNamespace = [''k8s-provider'']"
  by (simp_all add: appNamespace_def out_def consumes_def predecessors_def provider_edge_def)

lemma backendDeployment_facts [simp]:
  "name (backendDeployment lit) = ''backend''"
  "dependsOn (backendDeployment lit) = []"
  "provider (backendDeployment lit) = Some ''k8s-provider''"
  "consumes (backendDeployment lit) = [''app-namespace'']"
  "predecessors (backendDeployment lit) = [''k8s-provider'', ''app-namespace'']"
  by (simp_all add: backendDeployment_def out_def consumes_def predecessors_def provider_edge_def)

lemma backendService_facts [simp]:
  "name backendService = ''backend-service''"
  "dependsOn backendService = []"
  "provider backendService = Some ''k8s-provider''"
  "consumes backendService = [''app-namespace'']"
  "predecessors backendService = [''k8s-provider'', ''app-namespace'']"
  by (simp_all add: backendService_def out_def consumes_def predecessors_def provider_edge_def)

lemma backendHpa_facts [simp]:
  "name (backendHpa lit) = ''backend-hpa''"
  "dependsOn (backendHpa lit) = []"
  "provider (backendHpa lit) = Some ''k8s-provider''"
  "consumes (backendHpa lit) = [''app-namespace'', ''backend'']"
  "predecessors (backendHpa lit) = [''k8s-provider'', ''app-namespace'', ''backend'']"
  by (simp_all add: backendHpa_def out_def consumes_def predecessors_def provider_edge_def)

lemma frontendHtml_facts [simp]:
  "name (frontendHtml lit) = ''frontend-html''"
  "dependsOn (frontendHtml lit) = []"
  "provider (frontendHtml lit) = Some ''k8s-provider''"
  "consumes (frontendHtml lit) = [''app-namespace'']"
  "predecessors (frontendHtml lit) = [''k8s-provider'', ''app-namespace'']"
  by (simp_all add: frontendHtml_def out_def consumes_def predecessors_def provider_edge_def)

lemma frontendDeployment_facts [simp]:
  "name (frontendDeployment lit) = ''frontend''"
  "dependsOn (frontendDeployment lit) = []"
  "provider (frontendDeployment lit) = Some ''k8s-provider''"
  "consumes (frontendDeployment lit) = [''app-namespace'', ''frontend-html'']"
  "predecessors (frontendDeployment lit) = [''k8s-provider'', ''app-namespace'', ''frontend-html'']"
  by (simp_all add: frontendDeployment_def out_def consumes_def predecessors_def provider_edge_def)

lemma frontendService_facts [simp]:
  "name frontendService = ''frontend-service''"
  "dependsOn frontendService = []"
  "provider frontendService = Some ''k8s-provider''"
  "consumes frontendService = [''app-namespace'']"
  "predecessors frontendService = [''k8s-provider'', ''app-namespace'']"
  by (simp_all add: frontendService_def out_def consumes_def predecessors_def provider_edge_def)

lemma appGateway_facts [simp]:
  "name (appGateway lit env) = ''app-gateway''"
  "dependsOn (appGateway lit env) = [''aws-load-balancer-controller'']"
  "provider (appGateway lit env) = Some ''k8s-provider''"
  "consumes (appGateway lit env) = [''app-namespace'']"
  "predecessors (appGateway lit env) = [''aws-load-balancer-controller'', ''k8s-provider'', ''app-namespace'']"
  by (simp_all add: appGateway_def out_def consumes_def predecessors_def provider_edge_def)

lemma frontendRoute_facts [simp]:
  "name (frontendRoute lit env) = ''frontend-route''"
  "dependsOn (frontendRoute lit env) = [''app-gateway'']"
  "provider (frontendRoute lit env) = Some ''k8s-provider''"
  "consumes (frontendRoute lit env) = [''app-namespace'', ''app-gateway'', ''backend-service'', ''frontend-service'']"
  "predecessors (frontendRoute lit env) = [''app-gateway'', ''k8s-provider'', ''app-namespace'', ''app-gateway'', ''backend-service'', ''frontend-service'']"
  by (simp_all add: frontendRoute_def out_def consumes_def predecessors_def provider_edge_def)

lemma cluster_ingress_facts [simp]:
  "name (cluster_ingress env) = ''eks-cluster''"
  "dependsOn (cluster_ingress env) = []"
  "provider (cluster_ingress env) = None"
  "consumes (cluster_ingress env) = []"
  "predecessors (cluster_ingress env) = []"
  by (simp_all add: cluster_ingress_def out_def consumes_def predecessors_def provider_edge_def)

lemma k8sProvider_ingress_facts [simp]:
  "name (k8sProvider_ingress env) = ''k8s-provider''"
  "dependsOn (k8sProvider_ingress env) = []"
  "provider (k8sProvider_ingress env) = None"
  "consumes (k8sProvider_ingress env) = [''eks-cluster'']"
  "predecessors (k8sProvider_ingress env) = [''eks-cluster'']"
  by (simp_all add: k8sProvider_ingress_def out_def consumes_def predecessors_def provider_edge_def)

lemma nginxIngress_facts [simp]:
  "name (nginxIngress env) = ''nginx-ingress''"
  "dependsOn (nginxIngress env) = []"
  "provider (nginxIngress env) = Some ''k8s-provider''"
  "consumes (nginxIngress env) = []"
  "predecessors (nginxIngress env) = [''k8s-provider'']"
  by (simp_all add: nginxIngress_def out_def consumes_def predecessors_def provider_edge_def)

lemma certManager_facts [simp]:
  "name (certManager env) = ''cert-manager''"
  "dependsOn (certManager env) = []"
  "provider (certManager env) = Some ''k8s-provider''"
  "consumes (certManager env) = []"
  "predecessors (certManager env) = [''k8s-provider'']"
  by (simp_all add: certManager_def out_def consumes_def predecessors_def provider_edge_def)

lemma appNamespace_ingress_facts [simp]:
  "name (appNamespace_ingress env) = ''app-namespace''"
  "dependsOn (appNamespace_ingress env) = []"
  "provider (appNamespace_ingress env) = Some ''k8s-provider''"
  "consumes (appNamespace_ingress env) = []"
  "predecessors (appNamespace_ingress env) = [''k8s-provider'']"
  by (simp_all add: appNamespace_ingress_def out_def consumes_def predecessors_def provider_edge_def)

lemma letsencryptIssuer_facts [simp]:
  "name (letsencryptIssuer cfg env) = ''letsencrypt-issuer''"
  "dependsOn (letsencryptIssuer cfg env) = [''cert-manager'']"
  "provider (letsencryptIssuer cfg env) = Some ''k8s-provider''"
  "consumes (letsencryptIssuer cfg env) = []"
  "predecessors (letsencryptIssuer cfg env) = [''cert-manager'', ''k8s-provider'']"
  by (simp_all add: letsencryptIssuer_def out_def consumes_def predecessors_def provider_edge_def)

lemma redisDeployment_facts [simp]:
  "name (redisDeployment env) = ''redis''"
  "dependsOn (redisDeployment env) = []"
  "provider (redisDeployment env) = Some ''k8s-provider''"
  "consumes (redisDeployment env) = [''app-namespace'']"
  "predecessors (redisDeployment env) = [''k8s-provider'', ''app-namespace'']"
  by (simp_all add: redisDeployment_def out_def consumes_def predecessors_def provider_edge_def)

lemma redisService_facts [simp]:
  "name (redisService env) = ''redis-service''"
  "dependsOn (redisService env) = []"
  "provider (redisService env) = Some ''k8s-provider''"
  "consumes (redisService env) = [''app-namespace'']"
  "predecessors (redisService env) = [''k8s-provider'', ''app-namespace'']"
  by (simp_all add: redisService_def out_def consumes_def predecessors_def provider_edge_def)

lemma backendDeployment_ingress_facts [simp]:
  "name (backendDeployment_ingress env) = ''backend''"
  "dependsOn (backendDeployment_ingress env) = []"
  "provider (backendDeployment_ingress env) = Some ''k8s-provider''"
  "consumes (backendDeployment_ingress env) = [''app-namespace'']"
  "predecessors (backendDeployment_ingress env) = [''k8s-provider'', ''app-namespace'']"
  by (simp_all add: backendDeployment_ingress_def out_def consumes_def predecessors_def provider_edge_def)

lemma backendService_ingress_facts [simp]:
  "name (backendService_ingress env) = ''backend-service''"
  "dependsOn (backendService_ingress env) = []"
  "provider (backendService_ingress env) = Some ''k8s-provider''"
  "consumes (backendService_ingress env) = [''app-namespace'']"
  "predecessors (backendService_ingress env) = [''k8s-provider'', ''app-namespace'']"
  by (simp_all add: backendService_ingress_def out_def consumes_def predecessors_def provider_edge_def)

lemma backendHpa_ingress_facts [simp]:
  "name (backendHpa_ingress env) = ''backend-hpa''"
  "dependsOn (backendHpa_ingress env) = []"
  "provider (backendHpa_ingress env) = Some ''k8s-provider''"
  "consumes (backendHpa_ingress env) = [''app-namespace'', ''backend'']"
  "predecessors (backendHpa_ingress env) = [''k8s-provider'', ''app-namespace'', ''backend'']"
  by (simp_all add: backendHpa_ingress_def out_def consumes_def predecessors_def provider_edge_def)

lemma frontendDeployment_ingress_facts [simp]:
  "name (frontendDeployment_ingress env) = ''frontend''"
  "dependsOn (frontendDeployment_ingress env) = []"
  "provider (frontendDeployment_ingress env) = Some ''k8s-provider''"
  "consumes (frontendDeployment_ingress env) = [''app-namespace'']"
  "predecessors (frontendDeployment_ingress env) = [''k8s-provider'', ''app-namespace'']"
  by (simp_all add: frontendDeployment_ingress_def out_def consumes_def predecessors_def provider_edge_def)

lemma frontendService_ingress_facts [simp]:
  "name (frontendService_ingress env) = ''frontend-service''"
  "dependsOn (frontendService_ingress env) = []"
  "provider (frontendService_ingress env) = Some ''k8s-provider''"
  "consumes (frontendService_ingress env) = [''app-namespace'']"
  "predecessors (frontendService_ingress env) = [''k8s-provider'', ''app-namespace'']"
  by (simp_all add: frontendService_ingress_def out_def consumes_def predecessors_def provider_edge_def)

lemma appIngress_facts [simp]:
  "name (appIngress cfg env) = ''app-ingress''"
  "dependsOn (appIngress cfg env) = [''nginx-ingress'', ''letsencrypt-issuer'']"
  "provider (appIngress cfg env) = Some ''k8s-provider''"
  "consumes (appIngress cfg env) = [''app-namespace'', ''backend-service'', ''frontend-service'']"
  "predecessors (appIngress cfg env) = [''nginx-ingress'', ''letsencrypt-issuer'', ''k8s-provider'', ''app-namespace'', ''backend-service'', ''frontend-service'']"
  by (simp_all add: appIngress_def out_def consumes_def predecessors_def provider_edge_def)

section \<open>Registration, order and acyclicity in general\<close>

lemma register_all_distinct:
  "distinct (map name (acc @ ds)) \<Longrightarrow> register_all ds acc = Inr (acc @ ds)"
  by (induction ds arbitrary: acc) (simp_all add: register_def)

lemma register_all_isl:
  "distinct (map name acc) \<Longrightarrow>
   isl (register_all ds acc) = (\<not> distinct (map name (acc @ ds)))"
proof (induction ds arbitrary: acc)
  case Nil
  then show ?case by simp
next
  case (Cons d ds)
  show ?case
  proof (cases "name d \<in> set (map name acc)")
    case True
    then show ?thesis by (auto simp add: register_def)
  next
    case False
    with Cons.prems have "distinct (map name (acc @ [d]))" by simp
    from Cons.IH [OF this] False show ?thesis by (simp add: register_def)
  qed
qed

lemma run_distinct:
  "distinct (map name ds) \<Longrightarrow> run ds exports = Inr \<lparr>decls = ds, outputs = exports\<rparr>"
  by (simp add: run_def register_all_distinct [of "[]" ds, simplified])

lemma run_isl: "isl (run ds exports) = (\<not> distinct (map name ds))"
  using register_all_isl [of "[]" ds]
  by (cases "register_all ds []") (simp_all add: run_def)

lemma sort_from_declared:
  "declared_before seen ds \<Longrightarrow> length ds \<le> n \<Longrightarrow>
   sort_from n seen ds = Some (seen @ map name ds)"
proof (induction ds arbitrary: seen n)
  case Nil
  then show ?case by simp
next
  case (Cons d ds)
  then obtain m where n: "n = Suc m" by (cases n) auto
  from Cons.prems have r: "ready seen d" and rest: "declared_before (seen @ [name d]) ds"
    by (simp_all add: ready_def)
  from Cons.prems n have "length ds \<le> m" by simp
  from Cons.IH [OF rest this] r n show ?case by simp
qed

lemma topological_sort_declared:
  "no_forward_references ds \<Longrightarrow> topological_sort ds = Some (map name ds)"
  using sort_from_declared [of "[]" ds "length ds"]
  by (simp add: no_forward_references_def topological_sort_def)

lemma position_seen: "x \<in> set xs \<Longrightarrow> position (xs @ ys) x < length xs"
  by (induction xs) (auto simp add: position_def)

lemma position_new: "x \<notin> set xs \<Longrightarrow> position (xs @ x # ys) x = length xs"
  by (induction xs) (auto simp add: position_def)

lemma edges_ascend:
  "declared_before seen ds \<Longrightarrow> distinct (seen @ map name ds) \<Longrightarrow>
   (p, q) \<in> set (edges ds) \<Longrightarrow>
   position (seen @ map name ds) p < position (seen @ map name ds) q"
proof (induction ds arbitrary: seen)
  case Nil
  then show ?case by (simp add: edges_def)
next
  case (Cons d ds)
  from Cons.prems(3) consider
    (here) "q = name d" "p \<in> set (predecessors d)" | (later) "(p, q) \<in> set (edges ds)"
    by (auto simp add: edges_def)
  then show ?case
  proof cases
    case here
    from Cons.prems(1) here have "p \<in> set seen" by (simp add: list_all_iff)
    then have "position (seen @ map name (d # ds)) p < length seen"
      by (rule position_seen)
    moreover from Cons.prems(2) have "name d \<notin> set seen" by auto
    then have "position (seen @ map name (d # ds)) (name d) = length seen"
      by (simp add: position_new)
    ultimately show ?thesis using here by simp
  next
    case later
    from Cons.prems have "declared_before (seen @ [name d]) ds"
      and "distinct ((seen @ [name d]) @ map name ds)" by simp_all
    from Cons.IH [OF this later] show ?thesis by simp
  qed
qed

lemma acyclic_edges:
  assumes "no_forward_references ds" and "distinct (map name ds)"
  shows "acyclic (set (edges ds))"
proof (rule acyclicI_order)
  fix p q
  assume "(p, q) \<in> set (edges ds)"
  with assms edges_ascend [of "[]" ds p q]
  have "position (map name ds) p < position (map name ds) q"
    by (simp add: no_forward_references_def)
  then show "length ds - position (map name ds) q < length ds - position (map name ds) p"
    using length_takeWhile_le [of "\<lambda>y. y \<noteq> q" "map name ds"]
    by (simp add: position_def)
qed

section \<open>Facts about the two programs\<close>

lemma gateway_names:
  "map name (gateway_declarations lit env) = [
     ''eks-vpc'', ''eks-cluster'', ''k8s-provider'', ''gateway-api-crds'',
     ''alb-controller-role'', ''alb-controller-policy'', ''alb-controller-policy-attachment'',
     ''aws-load-balancer-controller'', ''app-namespace'', ''backend'', ''backend-service'',
     ''backend-hpa'', ''frontend-html'', ''frontend'', ''frontend-service'', ''app-gateway'',
     ''frontend-route'']"
  by (simp add: gateway_declarations_def)

lemma ingress_names:
  "map name (ingress_declarations cfg env) = [
     ''eks-cluster'', ''k8s-provider'', ''nginx-ingress'', ''cert-manager'', ''app-namespace'',
     ''letsencrypt-issuer'', ''redis'', ''redis-service'', ''backend'', ''backend-service'',
     ''backend-hpa'', ''frontend'', ''frontend-service'', ''app-ingress'']"
  by (simp add: ingress_declarations_def)

lemma gateway_distinct: "distinct (map name (gateway_declarations lit env))"
  by (simp add: gateway_names)

lemma ingress_distinct: "distinct (map name (ingress_declarations cfg env))"
  by (simp add: ingress_names)

lemma gateway_runs:
  "gateway_program lit cfg env =
     Inr \<lparr>decls = gateway_declarations lit env, outputs = gateway_exports\<rparr>"
  by (simp add: gateway_program_def run_distinct gateway_distinct)

lemma ingress_runs:
  "ingress_program cfg env =
     Inr \<lparr>decls = ingress_declarations cfg env, outputs = ingress_exports cfg env\<rparr>"
  by (simp add: ingress_program_def run_distinct ingress_distinct)

lemma gateway_no_forward_references: "no_forward_references (gateway_declarations lit env)"
  by (simp add: no_forward_references_def gateway_declarations_def)

lemma ingress_no_forward_references: "no_forward_references (ingress_declarations cfg env)"
  by (simp add: no_forward_references_def ingress_declarations_def)

lemma replace_prefix: "replace (pat @ rest) pat rep = rep @ rest"
proof (cases "pat @ rest")
  case Nil
  then show ?thesis by simp
next
  case (Cons c cs)
  have "prefix pat (pat @ rest)" by simp
  moreover have "drop (length pat) (pat @ rest) = rest" by simp
  ultimately show ?thesis unfolding Cons by simp
qed

lemma gateway_declaration_hpa:
  "find_declaration ''backend-hpa'' (gateway_program lit cfg env) = Some (backendHpa lit)"
  by (simp add: find_declaration_def gateway_runs gateway_declarations_def)

lemma ingress_declaration_hpa:
  "find_declaration ''backend-hpa'' (ingress_program cfg env) = Some (backendHpa_ingress env)"
  by (simp add: find_declaration_def ingress_runs ingress_declarations_def)

lemma gateway_declaration_route:
  "find_declaration ''frontend-route'' (gateway_program lit cfg env) = Some (frontendRoute lit env)"
  by (simp add: find_declaration_def gateway_runs gateway_declarations_def)

lemma ingress_declaration_ingress:
  "find_declaration ''app-ingress'' (ingress_program cfg env) = Some (appIngress cfg env)"
  by (simp add: find_declaration_def ingress_runs ingress_declarations_def)

lemma hpa_gateway:
  "at [Key ''spec'', Key ''minReplicas''] (attrs (backendHpa lit)) = Some (Num 2)"
  "at [Key ''spec'', Key ''maxReplicas''] (attrs (backendHpa lit)) = Some (Num 10)"
  "at [Key ''spec'', Key ''metrics'', Idx 0, Key ''resource'', Key ''target'',
       Key ''averageUtilization''] (attrs (backendHpa lit)) = Some (Num 70)"
  by (simp_all add: backendHpa_def)

lemma hpa_ingress:
  "at [Key ''spec'', Key ''minReplicas''] (attrs (backendHpa_ingress env)) = Some (Num 2)"
  "at [Key ''spec'', Key ''maxReplicas''] (attrs (backendHpa_ingress env)) = Some (Num 10)"
  "at [Key ''spec'', Key ''metrics'', Idx 0, Key ''resource'', Key ''target'',
       Key ''averageUtilization''] (attrs (backendHpa_ingress env)) = Some (Num 70)"
  by (simp_all add: backendHpa_ingress_def)

lemma route_rules:
  "at [Key ''spec'', Key ''rules'', Idx 0, Key ''matches'', Idx 0, Key ''path'']
      (attrs (frontendRoute lit env))
     = Some (Obj [(''type'', Str ''PathPrefix''), (''value'', Str ''/api'')])"
  "at [Key ''spec'', Key ''rules'', Idx 0, Key ''backendRefs'', Idx 0, Key ''name'']
      (attrs (frontendRoute lit env)) = Some (out backendService ''metadata.name'')"
  "at [Key ''spec'', Key ''rules'', Idx 1, Key ''matches'', Idx 0, Key ''path'']
      (attrs (frontendRoute lit env))
     = Some (Obj [(''type'', Str ''PathPrefix''), (''value'', Str ''/'')])"
  "at [Key ''spec'', Key ''rules'', Idx 1, Key ''backendRefs'', Idx 0, Key ''name'']
      (attrs (frontendRoute lit env)) = Some (out frontendService ''metadata.name'')"
  "at [Key ''spec'', Key ''rules'', Idx 2] (attrs (frontendRoute lit env)) = None"
  by (simp_all add: frontendRoute_def)

lemma ingress_paths:
  "at [Key ''spec'', Key ''rules'', Idx 0, Key ''http'', Key ''paths'', Idx 0, Key ''path'']
      (attrs (appIngress cfg env)) = Some (Str ''/api'')"
  "at [Key ''spec'', Key ''rules'', Idx 0, Key ''http'', Key ''paths'', Idx 0, Key ''pathType'']
      (attrs (appIngress cfg env)) = Some (Str ''Prefix'')"
  "at [Key ''spec'', Key ''rules'', Idx 0, Key ''http'', Key ''paths'', Idx 0, Key ''backend'',
       Key ''service'', Key ''name'']
      (attrs (appIngress cfg env)) = Some (out (backendService_ingress env) ''metadata.name'')"
  "at [Key ''spec'', Key ''rules'', Idx 0, Key ''http'', Key ''paths'', Idx 1, Key ''path'']
      (attrs (appIngress cfg env)) = Some (Str ''/'')"
  "at [Key ''spec'', Key ''rules'', Idx 0, Key ''http'', Key ''paths'', Idx 1, Key ''pathType'']
      (attrs (appIngress cfg env)) = Some (Str ''Prefix'')"
  "at [Key ''spec'', Key ''rules'', Idx 0, Key ''http'', Key ''paths'', Idx 1, Key ''backend'',
       Key ''service'', Key ''name'']
      (attrs (appIngress cfg env)) = Some (out (frontendService_ingress env) ''metadata.name'')"
  "at [Key ''spec'', Key ''rules'', Idx 0, Key ''http'', Key ''paths'', Idx 2]
      (attrs (appIngress cfg env)) = None"
  "at [Key ''spec'', Key ''rules'', Idx 1] (attrs (appIngress cfg env)) = None"
  by (simp_all add: appIngress_def)

lemma gateway_explicit:
  "explicitly_declared (gateway_declarations lit env) = [(''frontend-route'', ''app-gateway'')]"
  by (simp add: explicitly_declared_def gateway_declarations_def)

lemma ingress_explicit:
  "explicitly_declared (ingress_declarations cfg env) = []"
  by (simp add: explicitly_declared_def ingress_declarations_def)

lemma consumes_in_edges:
  "list_all (\<lambda>d. list_all (\<lambda>p. (p, name d) \<in> set (edges ds)) (consumes d)) ds"
  by (auto simp add: list_all_iff edges_def predecessors_def)






lemma gateway_declaration_release:
  "find_declaration ''aws-load-balancer-controller'' (gateway_program lit cfg env)
     = Some (awsLoadBalancerController lit env)"
  by (simp add: find_declaration_def gateway_runs gateway_declarations_def)

lemma gateway_output_names:
  "output_names (gateway_program lit cfg env)
     = [''kubeconfig'', ''clusterName'', ''vpcId'', ''appNamespaceName'', ''frontendServiceName'',
        ''backendServiceName'']"
  by (simp add: output_names_def gateway_runs gateway_exports_def)

lemma ingress_output_names:
  "output_names (ingress_program cfg env)
     = [''kubeconfig'', ''clusterName'', ''appUrl'', ''getLoadBalancerCommand'']"
  by (simp add: output_names_def ingress_runs ingress_exports_def)

lemma gateway_exported:
  "exported ''kubeconfig'' (gateway_program lit cfg env) = Some (out cluster ''kubeconfig'')"
  "exported ''clusterName'' (gateway_program lit cfg env) = Some (out cluster ''eksCluster.name'')"
  "exported ''vpcId'' (gateway_program lit cfg env) = Some (out vpc ''vpcId'')"
  "exported ''appUrl'' (gateway_program lit cfg env) = None"
  "exported ''getLoadBalancerCommand'' (gateway_program lit cfg env) = None"
  by (simp_all add: exported_def gateway_runs gateway_exports_def)

lemma gateway_exported_names:
  "exported ''appNamespaceName'' (gateway_program lit cfg env)
     = Some (out appNamespace ''metadata.name'')"
  "exported ''frontendServiceName'' (gateway_program lit cfg env)
     = Some (out frontendService ''metadata.name'')"
  "exported ''backendServiceName'' (gateway_program lit cfg env)
     = Some (out backendService ''metadata.name'')"
  by (simp_all add: exported_def gateway_runs gateway_exports_def)

lemma ingress_exported:
  "exported ''kubeconfig'' (ingress_program cfg env)
     = Some (out (cluster_ingress env) ''kubeconfig'')"
  "exported ''clusterName'' (ingress_program cfg env)
     = Some (out (cluster_ingress env) ''eksCluster.name'')"
  "exported ''appUrl'' (ingress_program cfg env) = Some (Str (''https://'' @ domain cfg))"
  "exported ''getLoadBalancerCommand'' (ingress_program cfg env) = Some getLoadBalancerCommand"
  by (simp_all add: exported_def ingress_runs ingress_exports_def appUrl_def)

lemma defaults_used:
  "at [Key ''spec'', Key ''rules'', Idx 0, Key ''host''] (attrs (appIngress cfg env))
     = Some (Str (domain cfg))"
  "at [Key ''spec'', Key ''tls'', Idx 0, Key ''hosts'', Idx 0] (attrs (appIngress cfg env))
     = Some (Str (domain cfg))"
  "at [Key ''spec'', Key ''acme'', Key ''email''] (attrs (letsencryptIssuer cfg env))
     = Some (Str (email cfg))"
  by (simp_all add: appIngress_def letsencryptIssuer_def)



lemma gateway_build_fails:
  "isl (gateway_build lit cfg p)
     \<longleftrightarrow> map_of (fileAnswers p) gatewayApiCrdsFile = None \<or> regionAnswer p = None"
  by (simp add: gateway_build_def gateway_runs split: option.splits)

lemma ingress_build_fails:
  "isl (ingress_build cfg p)
     \<longleftrightarrow> (case defaultVpcAnswer p of
            None \<Rightarrow> True
          | Some vpcId \<Rightarrow> map_of (subnetAnswers p) vpcId = None)"
  by (simp add: ingress_build_def ingress_runs split: option.splits)

section \<open>The claims\<close>

text \<open>
  Claim C1. For every federation endpoint the control plane reports (a URL that starts
  with \<open>https://\<close>), the \<open>StringEquals\<close> condition of the trust statement of the role
  \<open>alb-controller-role\<close> has the keys \<open>host:sub\<close> and \<open>host:aud\<close>, where \<open>host\<close> is the
  endpoint without the scheme prefix; for \<open>https://token.example.org/id/ABC\<close> the subject
  key is \<open>token.example.org/id/ABC:sub\<close>. The value is computed: the role's attribute is
  the callback applied to the \<open>arn\<close> and \<open>url\<close> outputs of the cluster's OIDC provider,
  and the callback returns the text of this document.
\<close>

theorem trust_statement_names_stripped_endpoint:
  "at [Key ''Statement'', Idx 0, Key ''Condition'', Key ''StringEquals'']
      (assumeRolePolicyDocument arn (''https://'' @ host))
     = Some (Obj [
         (host @ '':sub'', Str ''system:serviceaccount:kube-system:aws-load-balancer-controller''),
         (host @ '':aud'', Str ''sts.amazonaws.com'')])
   \<and> host @ '':sub'' \<noteq> host @ '':aud''
   \<and> at [Key ''Statement'', Idx 0, Key ''Condition'', Key ''StringEquals'']
      (assumeRolePolicyDocument arn ''https://token.example.org/id/ABC'')
     = Some (Obj [
         (''token.example.org/id/ABC:sub'',
            Str ''system:serviceaccount:kube-system:aws-load-balancer-controller''),
         (''token.example.org/id/ABC:aud'', Str ''sts.amazonaws.com'')])
   \<and> at [Key ''Statement'', Idx 0, Key ''Principal'', Key ''Federated'']
      (assumeRolePolicyDocument arn url) = Some (Str arn)
   \<and> run_callback AssumeRolePolicyCallback [arn, url]
     = Some (JsonText (assumeRolePolicyDocument arn url))
   \<and> at [Key ''assumeRolePolicy''] (attrs albControllerRole)
     = Some (Apply AssumeRolePolicyCallback [
         out cluster ''core.oidcProvider.arn'', out cluster ''core.oidcProvider.url''])"
proof -
  have stripped: "replace (''https://'' @ h) ''https://'' [] = h" for h
    using replace_prefix [of "''https://''" h "[]"] by simp
  have general: "at [Key ''Statement'', Idx 0, Key ''Condition'', Key ''StringEquals'']
      (assumeRolePolicyDocument arn (''https://'' @ h))
     = Some (Obj [
         (h @ '':sub'', Str ''system:serviceaccount:kube-system:aws-load-balancer-controller''),
         (h @ '':aud'', Str ''sts.amazonaws.com'')])" for h
    using stripped [of h] by (simp add: assumeRolePolicyDocument_def)
  have example: "at [Key ''Statement'', Idx 0, Key ''Condition'', Key ''StringEquals'']
      (assumeRolePolicyDocument arn ''https://token.example.org/id/ABC'')
     = Some (Obj [
         (''token.example.org/id/ABC:sub'',
            Str ''system:serviceaccount:kube-system:aws-load-balancer-controller''),
         (''token.example.org/id/ABC:aud'', Str ''sts.amazonaws.com'')])"
    using general [of "''token.example.org/id/ABC''"] by simp
  have principal: "at [Key ''Statement'', Idx 0, Key ''Principal'', Key ''Federated'']
      (assumeRolePolicyDocument arn url) = Some (Str arn)"
    by (simp add: assumeRolePolicyDocument_def Let_def)
  have callback: "run_callback AssumeRolePolicyCallback [arn, url]
     = Some (JsonText (assumeRolePolicyDocument arn url))"
    by (simp add: assumeRolePolicy_def)
  have attribute: "at [Key ''assumeRolePolicy''] (attrs albControllerRole)
     = Some (Apply AssumeRolePolicyCallback [
         out cluster ''core.oidcProvider.arn'', out cluster ''core.oidcProvider.url''])"
    by (simp add: albControllerRole_def)
  from general [of host] example principal callback attribute show ?thesis by simp
qed

text \<open>Claim C1, at the endpoint of a cluster in \<open>us-west-2\<close>.\<close>

theorem trust_statement_names_stripped_endpoint_witness:
  "at [Key ''Statement'', Idx 0, Key ''Condition'', Key ''StringEquals'']
      (assumeRolePolicyDocument ''arn:aws:iam::123456789012:oidc-provider/oidc.eks.us-west-2.amazonaws.com/id/EXAMPLE''
         ''https://oidc.eks.us-west-2.amazonaws.com/id/EXAMPLE'')
     = Some (Obj [
         (''oidc.eks.us-west-2.amazonaws.com/id/EXAMPLE:sub'',
            Str ''system:serviceaccount:kube-system:aws-load-balancer-controller''),
         (''oidc.eks.us-west-2.amazonaws.com/id/EXAMPLE:aud'', Str ''sts.amazonaws.com'')])"
  using trust_statement_names_stripped_endpoint
    [of "''arn:aws:iam::123456789012:oidc-provider/oidc.eks.us-west-2.amazonaws.com/id/EXAMPLE''"
        "''oidc.eks.us-west-2.amazonaws.com/id/EXAMPLE''" "''''"]
  by simp




text \<open>
  Claim C3. Both programs run to a graph in which every predecessor of a declaration (a
  \<open>dependsOn\<close> entry, its provider, a declaration whose output it consumes) is the
  logical name of a declaration registered before it; the edges of the graph have no
  cycle, and its topological sort succeeds (with the order of the program text).
\<close>

theorem predecessors_declared_before_and_acyclic:
  "(\<exists>g. gateway_program lit cfg env = Inr g
        \<and> no_forward_references (decls g)
        \<and> acyclic (set (edges (decls g)))
        \<and> topological_sort (decls g) = Some (map name (decls g)))
   \<and> (\<exists>g. ingress_program cfg env = Inr g
        \<and> no_forward_references (decls g)
        \<and> acyclic (set (edges (decls g)))
        \<and> topological_sort (decls g) = Some (map name (decls g)))"
proof
  let ?g = "\<lparr>decls = gateway_declarations lit env, outputs = gateway_exports\<rparr>"
  have "gateway_program lit cfg env = Inr ?g" by (rule gateway_runs)
  moreover have "no_forward_references (decls ?g)"
    by (simp add: gateway_no_forward_references)
  moreover have "acyclic (set (edges (decls ?g)))"
    by (simp add: acyclic_edges gateway_no_forward_references gateway_distinct)
  moreover have "topological_sort (decls ?g) = Some (map name (decls ?g))"
    by (simp add: topological_sort_declared gateway_no_forward_references)
  ultimately show "\<exists>g. gateway_program lit cfg env = Inr g
        \<and> no_forward_references (decls g)
        \<and> acyclic (set (edges (decls g)))
        \<and> topological_sort (decls g) = Some (map name (decls g))"
    by blast
next
  let ?g = "\<lparr>decls = ingress_declarations cfg env, outputs = ingress_exports cfg env\<rparr>"
  have "ingress_program cfg env = Inr ?g" by (rule ingress_runs)
  moreover have "no_forward_references (decls ?g)"
    by (simp add: ingress_no_forward_references)
  moreover have "acyclic (set (edges (decls ?g)))"
    by (simp add: acyclic_edges ingress_no_forward_references ingress_distinct)
  moreover have "topological_sort (decls ?g) = Some (map name (decls ?g))"
    by (simp add: topological_sort_declared ingress_no_forward_references)
  ultimately show "\<exists>g. ingress_program cfg env = Inr g
        \<and> no_forward_references (decls g)
        \<and> acyclic (set (edges (decls g)))
        \<and> topological_sort (decls g) = Some (map name (decls g))"
    by blast
qed

text \<open>Claim C3, for an empty configuration in \<open>us-west-2\<close>.\<close>

theorem predecessors_declared_before_and_acyclic_witness:
  "(\<exists>g. gateway_program
          \<lparr>albControllerPolicyText = ''{}'', backendServerScript = ''node server.js'',
           indexHtml = ''<html></html>''\<rparr>
          Map.empty
          \<lparr>region = ''us-west-2'', defaultVpc = ''vpc-1'', subnets = [(''vpc-1'', [''subnet-a''])], files = []\<rparr>
        = Inr g
        \<and> no_forward_references (decls g)
        \<and> acyclic (set (edges (decls g)))
        \<and> topological_sort (decls g) = Some (map name (decls g)))
   \<and> (\<exists>g. ingress_program Map.empty
          \<lparr>region = ''us-west-2'', defaultVpc = ''vpc-1'', subnets = [(''vpc-1'', [''subnet-a''])], files = []\<rparr>
        = Inr g
        \<and> no_forward_references (decls g)
        \<and> acyclic (set (edges (decls g)))
        \<and> topological_sort (decls g) = Some (map name (decls g)))"
  by (rule predecessors_declared_before_and_acyclic)

text \<open>
  Claim C4 as stated fails: the Helm release of the load-balancer controller consumes
  outputs of the cluster, of the role and of the VPC, and its \<open>dependsOn\<close> names none
  of the three; the autoscaler consumes the deployment's name and has no \<open>dependsOn\<close>.
\<close>

theorem helm_release_lists_no_edge_to_its_producers:
  "find_declaration ''aws-load-balancer-controller'' (gateway_program
      \<lparr>albControllerPolicyText = ''{}'', backendServerScript = ''node server.js'',
       indexHtml = ''<html></html>''\<rparr>
      Map.empty
      \<lparr>region = ''us-west-2'', defaultVpc = ''vpc-1'', subnets = [], files = []\<rparr>)
     = Some (awsLoadBalancerController
        \<lparr>albControllerPolicyText = ''{}'', backendServerScript = ''node server.js'',
         indexHtml = ''<html></html>''\<rparr>
        \<lparr>region = ''us-west-2'', defaultVpc = ''vpc-1'', subnets = [], files = []\<rparr>)
   \<and> consumes (awsLoadBalancerController
        \<lparr>albControllerPolicyText = ''{}'', backendServerScript = ''node server.js'',
         indexHtml = ''<html></html>''\<rparr>
        \<lparr>region = ''us-west-2'', defaultVpc = ''vpc-1'', subnets = [], files = []\<rparr>)
     = [''eks-cluster'', ''alb-controller-role'', ''eks-vpc'']
   \<and> dependsOn (awsLoadBalancerController
        \<lparr>albControllerPolicyText = ''{}'', backendServerScript = ''node server.js'',
         indexHtml = ''<html></html>''\<rparr>
        \<lparr>region = ''us-west-2'', defaultVpc = ''vpc-1'', subnets = [], files = []\<rparr>)
     = [''gateway-api-crds'', ''alb-controller-policy-attachment'']
   \<and> consumes (backendHpa
        \<lparr>albControllerPolicyText = ''{}'', backendServerScript = ''node server.js'',
         indexHtml = ''<html></html>''\<rparr>)
     = [''app-namespace'', ''backend'']
   \<and> dependsOn (backendHpa
        \<lparr>albControllerPolicyText = ''{}'', backendServerScript = ''node server.js'',
         indexHtml = ''<html></html>''\<rparr>)
     = []"
  using gateway_declaration_release awsLoadBalancerController_facts(2,4) backendHpa_facts(2,4)
  by (intro conjI) blast+

text \<open>
  Claim C4, amended. For every pair of declarations where one consumes an output of the
  other, the graph has the edge from the producer to the consumer, and the producer is
  declared before the consumer. The edge is carried by the attribute that holds the
  reference; \<open>dependsOn\<close> repeats it for one pair only, \<open>frontend-route\<close> on
  \<open>app-gateway\<close> in index.ts, and for no pair in the ingress variant.
\<close>

theorem consumed_outputs_are_predecessors:
  "(\<exists>g. gateway_program lit cfg env = Inr g
        \<and> list_all (\<lambda>d. list_all (\<lambda>p. (p, name d) \<in> set (edges (decls g))) (consumes d))
             (decls g)
        \<and> no_forward_references (decls g)
        \<and> explicitly_declared (decls g) = [(''frontend-route'', ''app-gateway'')])
   \<and> (\<exists>g. ingress_program cfg env = Inr g
        \<and> list_all (\<lambda>d. list_all (\<lambda>p. (p, name d) \<in> set (edges (decls g))) (consumes d))
             (decls g)
        \<and> no_forward_references (decls g)
        \<and> explicitly_declared (decls g) = [])"
proof
  let ?g = "\<lparr>decls = gateway_declarations lit env, outputs = gateway_exports\<rparr>"
  have "gateway_program lit cfg env = Inr ?g" by (rule gateway_runs)
  moreover have
    "list_all (\<lambda>d. list_all (\<lambda>p. (p, name d) \<in> set (edges (decls ?g))) (consumes d)) (decls ?g)"
    by (rule consumes_in_edges)
  moreover have "no_forward_references (decls ?g)"
    by (simp add: gateway_no_forward_references)
  moreover have "explicitly_declared (decls ?g) = [(''frontend-route'', ''app-gateway'')]"
    by (simp add: gateway_explicit)
  ultimately show "\<exists>g. gateway_program lit cfg env = Inr g
        \<and> list_all (\<lambda>d. list_all (\<lambda>p. (p, name d) \<in> set (edges (decls g))) (consumes d))
             (decls g)
        \<and> no_forward_references (decls g)
        \<and> explicitly_declared (decls g) = [(''frontend-route'', ''app-gateway'')]"
    by blast
next
  let ?g = "\<lparr>decls = ingress_declarations cfg env, outputs = ingress_exports cfg env\<rparr>"
  have "ingress_program cfg env = Inr ?g" by (rule ingress_runs)
  moreover have
    "list_all (\<lambda>d. list_all (\<lambda>p. (p, name d) \<in> set (edges (decls ?g))) (consumes d)) (decls ?g)"
    by (rule consumes_in_edges)
  moreover have "no_forward_references (decls ?g)"
    by (simp add: ingress_no_forward_references)
  moreover have "explicitly_declared (decls ?g) = []"
    by (simp add: ingress_explicit)
  ultimately show "\<exists>g. ingress_program cfg env = Inr g
        \<and> list_all (\<lambda>d. list_all (\<lambda>p. (p, name d) \<in> set (edges (decls g))) (consumes d))
             (decls g)
        \<and> no_forward_references (decls g)
        \<and> explicitly_declared (decls g) = []"
    by blast
qed

text \<open>Claim C4, amended, for an empty configuration in \<open>us-west-2\<close>.\<close>

theorem consumed_outputs_are_predecessors_witness:
  "(\<exists>g. gateway_program
          \<lparr>albControllerPolicyText = ''{}'', backendServerScript = ''node server.js'',
           indexHtml = ''<html></html>''\<rparr>
          Map.empty
          \<lparr>region = ''us-west-2'', defaultVpc = ''vpc-1'', subnets = [], files = []\<rparr>
        = Inr g
        \<and> list_all (\<lambda>d. list_all (\<lambda>p. (p, name d) \<in> set (edges (decls g))) (consumes d))
             (decls g)
        \<and> no_forward_references (decls g)
        \<and> explicitly_declared (decls g) = [(''frontend-route'', ''app-gateway'')])
   \<and> (\<exists>g. ingress_program Map.empty
          \<lparr>region = ''us-west-2'', defaultVpc = ''vpc-1'', subnets = [], files = []\<rparr>
        = Inr g
        \<and> list_all (\<lambda>d. list_all (\<lambda>p. (p, name d) \<in> set (edges (decls g))) (consumes d))
             (decls g)
        \<and> no_forward_references (decls g)
        \<and> explicitly_declared (decls g) = [])"
  by (rule consumed_outputs_are_predecessors)

text \<open>
  Claim C5 as stated fails: a configuration that asks for a minimum of zero replicas is
  not rejected. Both programs run to a graph, and the autoscaler keeps its minimum of 2.
\<close>

theorem zero_minimum_is_not_rejected:
  "\<not> isl (gateway_program
        \<lparr>albControllerPolicyText = ''{}'', backendServerScript = ''node server.js'',
         indexHtml = ''<html></html>''\<rparr>
        [''minReplicas'' \<mapsto> ''0'', ''maxReplicas'' \<mapsto> ''10'']
        \<lparr>region = ''us-west-2'', defaultVpc = ''vpc-1'', subnets = [], files = []\<rparr>)
   \<and> \<not> isl (ingress_program
        [''minReplicas'' \<mapsto> ''0'', ''maxReplicas'' \<mapsto> ''10'']
        \<lparr>region = ''us-west-2'', defaultVpc = ''vpc-1'', subnets = [], files = []\<rparr>)
   \<and> find_declaration ''backend-hpa'' (ingress_program
        [''minReplicas'' \<mapsto> ''0'', ''maxReplicas'' \<mapsto> ''10'']
        \<lparr>region = ''us-west-2'', defaultVpc = ''vpc-1'', subnets = [], files = []\<rparr>)
      = Some (backendHpa_ingress \<lparr>region = ''us-west-2'', defaultVpc = ''vpc-1'', subnets = [], files = []\<rparr>)
   \<and> at [Key ''spec'', Key ''minReplicas'']
        (attrs (backendHpa_ingress \<lparr>region = ''us-west-2'', defaultVpc = ''vpc-1'', subnets = [], files = []\<rparr>))
      = Some (Num 2)"
proof -
  have "\<not> isl (gateway_program l c e)" for l c e by (simp add: gateway_runs)
  moreover have "\<not> isl (ingress_program c e)" for c e by (simp add: ingress_runs)
  ultimately show ?thesis
    using ingress_declaration_hpa hpa_ingress(1) by (intro conjI) blast+
qed

text \<open>
  Claim C5, amended. For every configuration both programs run to a graph, and the
  autoscaler declaration \<open>backend-hpa\<close> has the minimum 2, the maximum 10 and the CPU
  utilisation target 70: the three numbers are literals of the program text, no
  configuration value is read for them, and no configuration is rejected.
\<close>

theorem autoscaler_bounds_are_literals:
  "\<not> isl (gateway_program lit cfg env)
   \<and> find_declaration ''backend-hpa'' (gateway_program lit cfg env) = Some (backendHpa lit)
   \<and> at [Key ''spec'', Key ''minReplicas''] (attrs (backendHpa lit)) = Some (Num 2)
   \<and> at [Key ''spec'', Key ''maxReplicas''] (attrs (backendHpa lit)) = Some (Num 10)
   \<and> at [Key ''spec'', Key ''metrics'', Idx 0, Key ''resource'', Key ''target'',
         Key ''averageUtilization''] (attrs (backendHpa lit)) = Some (Num 70)
   \<and> \<not> isl (ingress_program cfg env)
   \<and> find_declaration ''backend-hpa'' (ingress_program cfg env) = Some (backendHpa_ingress env)
   \<and> at [Key ''spec'', Key ''minReplicas''] (attrs (backendHpa_ingress env)) = Some (Num 2)
   \<and> at [Key ''spec'', Key ''maxReplicas''] (attrs (backendHpa_ingress env)) = Some (Num 10)
   \<and> at [Key ''spec'', Key ''metrics'', Idx 0, Key ''resource'', Key ''target'',
         Key ''averageUtilization''] (attrs (backendHpa_ingress env)) = Some (Num 70)"
proof -
  have "\<not> isl (gateway_program lit cfg env)" by (simp add: gateway_runs)
  moreover have "\<not> isl (ingress_program cfg env)" by (simp add: ingress_runs)
  ultimately show ?thesis
    using gateway_declaration_hpa [of lit cfg env] ingress_declaration_hpa [of cfg env]
      hpa_gateway [of lit] hpa_ingress [of env]
    by (intro conjI) assumption+
qed

text \<open>Claim C5, amended, for a configuration that sets autoscaler numbers of its own.\<close>

theorem autoscaler_bounds_are_literals_witness:
  "find_declaration ''backend-hpa'' (ingress_program
      [''minReplicas'' \<mapsto> ''3'', ''maxReplicas'' \<mapsto> ''5'']
      \<lparr>region = ''us-west-2'', defaultVpc = ''vpc-1'', subnets = [], files = []\<rparr>)
     = Some (backendHpa_ingress \<lparr>region = ''us-west-2'', defaultVpc = ''vpc-1'', subnets = [], files = []\<rparr>)
   \<and> at [Key ''spec'', Key ''minReplicas'']
        (attrs (backendHpa_ingress \<lparr>region = ''us-west-2'', defaultVpc = ''vpc-1'', subnets = [], files = []\<rparr>))
      = Some (Num 2)
   \<and> at [Key ''spec'', Key ''maxReplicas'']
        (attrs (backendHpa_ingress \<lparr>region = ''us-west-2'', defaultVpc = ''vpc-1'', subnets = [], files = []\<rparr>))
      = Some (Num 10)"
  using autoscaler_bounds_are_literals
    [of "\<lparr>albControllerPolicyText = ''{}'', backendServerScript = ''node server.js'',
          indexHtml = ''<html></html>''\<rparr>"
        "[''minReplicas'' \<mapsto> ''3'', ''maxReplicas'' \<mapsto> ''5'']"
        "\<lparr>region = ''us-west-2'', defaultVpc = ''vpc-1'', subnets = [], files = []\<rparr>"]
  by (intro conjI) (elim conjE, assumption)+

text \<open>
  Claim C6. With the configuration value \<open>domain\<close> set to \<open>example.com\<close>, the run of the
  ingress variant exports \<open>appUrl\<close> with the value \<open>https://example.com\<close>. (index.ts
  has no such export, see C7.)
\<close>

theorem app_url_of_example_domain:
  "config_get cfg ''domain'' = Some ''example.com'' \<Longrightarrow>
   exported ''appUrl'' (ingress_program cfg env) = Some (Str ''https://example.com'')"
  by (simp add: exported_def ingress_runs ingress_exports_def appUrl_def domain_def
      or_else_def)

text \<open>Claim C6, for the configuration that sets only \<open>domain\<close>.\<close>

theorem app_url_of_example_domain_witness:
  "exported ''appUrl''
     (ingress_program [''domain'' \<mapsto> ''example.com'']
        \<lparr>region = ''us-west-2'', defaultVpc = ''vpc-1'', subnets = [], files = []\<rparr>)
     = Some (Str ''https://example.com'')"
  using app_url_of_example_domain
    [of "[''domain'' \<mapsto> ''example.com'']"
        "\<lparr>region = ''us-west-2'', defaultVpc = ''vpc-1'', subnets = [], files = []\<rparr>"]
  by (simp add: config_get_def)

text \<open>
  Claim C7 as stated fails for index.ts: its run exports no application base URL, no
  load-balancer hostname and no command to retrieve one.
\<close>

theorem gateway_run_exports_no_app_url:
  "output_names (gateway_program
      \<lparr>albControllerPolicyText = ''{}'', backendServerScript = ''node server.js'',
       indexHtml = ''<html></html>''\<rparr>
      Map.empty
      \<lparr>region = ''us-west-2'', defaultVpc = ''vpc-1'', subnets = [], files = []\<rparr>)
     = [''kubeconfig'', ''clusterName'', ''vpcId'', ''appNamespaceName'', ''frontendServiceName'',
        ''backendServiceName'']
   \<and> exported ''appUrl'' (gateway_program
      \<lparr>albControllerPolicyText = ''{}'', backendServerScript = ''node server.js'',
       indexHtml = ''<html></html>''\<rparr>
      Map.empty
      \<lparr>region = ''us-west-2'', defaultVpc = ''vpc-1'', subnets = [], files = []\<rparr>) = None"
  using gateway_output_names gateway_exported(4) by (intro conjI) blast+

text \<open>
  Claim C7, amended. The run of the ingress variant exports the cluster access credentials
  (\<open>kubeconfig\<close>), the cluster identifier (\<open>clusterName\<close>), the application base URL
  (\<open>appUrl\<close>) and the command that retrieves the load-balancer hostname
  (\<open>getLoadBalancerCommand\<close>), and nothing else. The run of index.ts exports the
  credentials and the cluster identifier too, and besides them the VPC id, the application
  namespace name, the frontend service name and the backend service name, and nothing
  else.
\<close>

theorem exports_of_the_two_programs:
  "output_names (ingress_program cfg env)
     = [''kubeconfig'', ''clusterName'', ''appUrl'', ''getLoadBalancerCommand'']
   \<and> exported ''kubeconfig'' (ingress_program cfg env)
     = Some (out (cluster_ingress env) ''kubeconfig'')
   \<and> exported ''clusterName'' (ingress_program cfg env)
     = Some (out (cluster_ingress env) ''eksCluster.name'')
   \<and> exported ''appUrl'' (ingress_program cfg env) = Some (Str (''https://'' @ domain cfg))
   \<and> exported ''getLoadBalancerCommand'' (ingress_program cfg env) = Some getLoadBalancerCommand
   \<and> output_names (gateway_program lit cfg env)
     = [''kubeconfig'', ''clusterName'', ''vpcId'', ''appNamespaceName'', ''frontendServiceName'',
        ''backendServiceName'']
   \<and> exported ''kubeconfig'' (gateway_program lit cfg env) = Some (out cluster ''kubeconfig'')
   \<and> exported ''clusterName'' (gateway_program lit cfg env)
     = Some (out cluster ''eksCluster.name'')
   \<and> exported ''vpcId'' (gateway_program lit cfg env) = Some (out vpc ''vpcId'')
   \<and> exported ''appNamespaceName'' (gateway_program lit cfg env)
     = Some (out appNamespace ''metadata.name'')
   \<and> exported ''frontendServiceName'' (gateway_program lit cfg env)
     = Some (out frontendService ''metadata.name'')
   \<and> exported ''backendServiceName'' (gateway_program lit cfg env)
     = Some (out backendService ''metadata.name'')"
  using ingress_output_names [of cfg env] ingress_exported [of cfg env]
    gateway_output_names [of lit cfg env] gateway_exported(1,2,3) [of lit cfg env]
    gateway_exported_names [of lit cfg env]
  by (intro conjI) assumption+

text \<open>Claim C7, amended, for an empty configuration in \<open>us-west-2\<close>.\<close>

theorem exports_of_the_two_programs_witness:
  "output_names (ingress_program Map.empty
      \<lparr>region = ''us-west-2'', defaultVpc = ''vpc-1'', subnets = [], files = []\<rparr>)
     = [''kubeconfig'', ''clusterName'', ''appUrl'', ''getLoadBalancerCommand'']
   \<and> output_names (gateway_program
      \<lparr>albControllerPolicyText = ''{}'', backendServerScript = ''node server.js'',
       indexHtml = ''<html></html>''\<rparr>
      Map.empty
      \<lparr>region = ''us-west-2'', defaultVpc = ''vpc-1'', subnets = [], files = []\<rparr>)
     = [''kubeconfig'', ''clusterName'', ''vpcId'', ''appNamespaceName'', ''frontendServiceName'',
        ''backendServiceName'']"
  using exports_of_the_two_programs
    [of Map.empty "\<lparr>region = ''us-west-2'', defaultVpc = ''vpc-1'', subnets = [], files = []\<rparr>"
        "\<lparr>albControllerPolicyText = ''{}'', backendServerScript = ''node server.js'',
       indexHtml = ''<html></html>''\<rparr>"]
  by (intro conjI) (elim conjE, assumption)+

text \<open>
  Claim C8 as stated fails: a clash of logical names is not the only way a build can
  fail. The ingress variant asks the platform for the default VPC while it builds; in an
  account without one the build fails with that call, although every configuration
  value is set and no two declarations have the same logical name.
\<close>

theorem failing_lookup_fails_the_build:
  "ingress_build
      [''domain'' \<mapsto> ''example.com'', ''letsencryptEmail'' \<mapsto> ''admin@example.com'']
      \<lparr>regionAnswer = Some ''us-west-2'', defaultVpcAnswer = None, subnetAnswers = [],
       fileAnswers = []\<rparr>
     = Inl (CallFailed ''aws.ec2.getVpc'')
   \<and> distinct (map name (ingress_declarations
      [''domain'' \<mapsto> ''example.com'', ''letsencryptEmail'' \<mapsto> ''admin@example.com'']
      (answers \<lparr>regionAnswer = Some ''us-west-2'', defaultVpcAnswer = None,
         subnetAnswers = [], fileAnswers = []\<rparr>)))"
  by (simp add: ingress_build_def ingress_distinct)

text \<open>
  Claim C8, amended. Graph construction never fails for a missing configuration value:
  index.ts reads none, and the two values the ingress variant reads have defaults,
  \<open>example.com\<close> for \<open>domain\<close> and \<open>admin@example.com\<close> for
  \<open>letsencryptEmail\<close>, which are what the declarations get when the value is absent.
  No two declarations of either program have the same logical name, so with the results
  of its calls to the platform each program runs to a graph for every configuration. A
  build fails exactly when one of the calls its program text makes while building fails,
  whatever the configuration: for index.ts the fetch of the Gateway API file and the
  provider's region, for the ingress variant the default VPC and its subnets.
\<close>

theorem construction_needs_no_configuration_value:
  "\<not> isl (gateway_program lit cfg env)
   \<and> \<not> isl (ingress_program cfg env)
   \<and> (config_get cfg ''domain'' = None \<longrightarrow> domain cfg = ''example.com'')
   \<and> (config_get cfg ''letsencryptEmail'' = None \<longrightarrow> email cfg = ''admin@example.com'')
   \<and> at [Key ''spec'', Key ''rules'', Idx 0, Key ''host''] (attrs (appIngress cfg env))
     = Some (Str (domain cfg))
   \<and> at [Key ''spec'', Key ''tls'', Idx 0, Key ''hosts'', Idx 0] (attrs (appIngress cfg env))
     = Some (Str (domain cfg))
   \<and> at [Key ''spec'', Key ''acme'', Key ''email''] (attrs (letsencryptIssuer cfg env))
     = Some (Str (email cfg))
   \<and> distinct (map name (gateway_declarations lit env))
   \<and> distinct (map name (ingress_declarations cfg env))
   \<and> (isl (gateway_build lit cfg p)
      \<longleftrightarrow> map_of (fileAnswers p) gatewayApiCrdsFile = None \<or> regionAnswer p = None)
   \<and> (isl (ingress_build cfg p)
      \<longleftrightarrow> (case defaultVpcAnswer p of
             None \<Rightarrow> True
           | Some vpcId \<Rightarrow> map_of (subnetAnswers p) vpcId = None))"
proof -
  have "\<not> isl (gateway_program lit cfg env)" by (simp add: gateway_runs)
  moreover have "\<not> isl (ingress_program cfg env)" by (simp add: ingress_runs)
  moreover have "config_get cfg ''domain'' = None \<longrightarrow> domain cfg = ''example.com''"
    by (simp add: domain_def or_else_def)
  moreover have
    "config_get cfg ''letsencryptEmail'' = None \<longrightarrow> email cfg = ''admin@example.com''"
    by (simp add: email_def or_else_def)
  ultimately show ?thesis
    using defaults_used [of cfg env] gateway_distinct [of lit env] ingress_distinct [of cfg env]
      gateway_build_fails [of lit cfg p] ingress_build_fails [of cfg p]
    by (intro conjI) assumption+
qed

text \<open>
  Claim C8, amended, for the configuration that sets nothing and a platform that answers
  every call.
\<close>

theorem construction_needs_no_configuration_value_witness:
  "\<not> isl (gateway_program
        \<lparr>albControllerPolicyText = ''{}'', backendServerScript = ''node server.js'',
       indexHtml = ''<html></html>''\<rparr>
        Map.empty
        \<lparr>region = ''us-west-2'', defaultVpc = ''vpc-1'', subnets = [], files = []\<rparr>)
   \<and> \<not> isl (ingress_program Map.empty
        \<lparr>region = ''us-west-2'', defaultVpc = ''vpc-1'', subnets = [], files = []\<rparr>)
   \<and> domain Map.empty = ''example.com''
   \<and> email Map.empty = ''admin@example.com''
   \<and> at [Key ''spec'', Key ''rules'', Idx 0, Key ''host'']
        (attrs (appIngress Map.empty
           \<lparr>region = ''us-west-2'', defaultVpc = ''vpc-1'', subnets = [], files = []\<rparr>))
     = Some (Str ''example.com'')
   \<and> \<not> isl (ingress_build Map.empty
        \<lparr>regionAnswer = Some ''us-west-2'', defaultVpcAnswer = Some ''vpc-1'',
         subnetAnswers = [(''vpc-1'', [''subnet-a''])], fileAnswers = []\<rparr>)"
  using construction_needs_no_configuration_value
    [of "\<lparr>albControllerPolicyText = ''{}'', backendServerScript = ''node server.js'',
       indexHtml = ''<html></html>''\<rparr>" Map.empty
        "\<lparr>region = ''us-west-2'', defaultVpc = ''vpc-1'', subnets = [], files = []\<rparr>"
        "\<lparr>regionAnswer = Some ''us-west-2'', defaultVpcAnswer = Some ''vpc-1'',
          subnetAnswers = [(''vpc-1'', [''subnet-a''])], fileAnswers = []\<rparr>"]
  by (simp add: config_get_def)




text \<open>
  Claim C10. In both variants the traffic-exposure declaration lists exactly two
  path-prefix rules, in this order: first \<open>/api\<close>, routed to the backend service, then
  the catch-all \<open>/\<close>, routed to the frontend service. In index.ts the declaration is
  the HTTPRoute \<open>frontend-route\<close>, in the ingress variant the Ingress \<open>app-ingress\<close>.
\<close>

theorem api_rule_precedes_catch_all:
  "find_declaration ''frontend-route'' (gateway_program lit cfg env) = Some (frontendRoute lit env)
   \<and> at [Key ''spec'', Key ''rules'', Idx 0, Key ''matches'', Idx 0, Key ''path'']
        (attrs (frontendRoute lit env))
      = Some (Obj [(''type'', Str ''PathPrefix''), (''value'', Str ''/api'')])
   \<and> at [Key ''spec'', Key ''rules'', Idx 0, Key ''backendRefs'', Idx 0, Key ''name'']
        (attrs (frontendRoute lit env)) = Some (out backendService ''metadata.name'')
   \<and> at [Key ''spec'', Key ''rules'', Idx 1, Key ''matches'', Idx 0, Key ''path'']
        (attrs (frontendRoute lit env))
      = Some (Obj [(''type'', Str ''PathPrefix''), (''value'', Str ''/'')])
   \<and> at [Key ''spec'', Key ''rules'', Idx 1, Key ''backendRefs'', Idx 0, Key ''name'']
        (attrs (frontendRoute lit env)) = Some (out frontendService ''metadata.name'')
   \<and> at [Key ''spec'', Key ''rules'', Idx 2] (attrs (frontendRoute lit env)) = None
   \<and> find_declaration ''app-ingress'' (ingress_program cfg env) = Some (appIngress cfg env)
   \<and> at [Key ''spec'', Key ''rules'', Idx 0, Key ''http'', Key ''paths'', Idx 0, Key ''path'']
        (attrs (appIngress cfg env)) = Some (Str ''/api'')
   \<and> at [Key ''spec'', Key ''rules'', Idx 0, Key ''http'', Key ''paths'', Idx 0, Key ''pathType'']
        (attrs (appIngress cfg env)) = Some (Str ''Prefix'')
   \<and> at [Key ''spec'', Key ''rules'', Idx 0, Key ''http'', Key ''paths'', Idx 0, Key ''backend'',
         Key ''service'', Key ''name'']
        (attrs (appIngress cfg env)) = Some (out (backendService_ingress env) ''metadata.name'')
   \<and> at [Key ''spec'', Key ''rules'', Idx 0, Key ''http'', Key ''paths'', Idx 1, Key ''path'']
        (attrs (appIngress cfg env)) = Some (Str ''/'')
   \<and> at [Key ''spec'', Key ''rules'', Idx 0, Key ''http'', Key ''paths'', Idx 1, Key ''pathType'']
        (attrs (appIngress cfg env)) = Some (Str ''Prefix'')
   \<and> at [Key ''spec'', Key ''rules'', Idx 0, Key ''http'', Key ''paths'', Idx 1, Key ''backend'',
         Key ''service'', Key ''name'']
        (attrs (appIngress cfg env)) = Some (out (frontendService_ingress env) ''metadata.name'')
   \<and> at [Key ''spec'', Key ''rules'', Idx 0, Key ''http'', Key ''paths'', Idx 2]
        (attrs (appIngress cfg env)) = None
   \<and> at [Key ''spec'', Key ''rules'', Idx 1] (attrs (appIngress cfg env)) = None"
  using gateway_declaration_route [of lit cfg env] ingress_declaration_ingress [of cfg env]
    route_rules [of lit env] ingress_paths [of cfg env]
  by (intro conjI) assumption+

text \<open>Claim C10, for an empty configuration in \<open>us-west-2\<close>: the first rule of each variant.\<close>

theorem api_rule_precedes_catch_all_witness:
  "at [Key ''spec'', Key ''rules'', Idx 0, Key ''matches'', Idx 0, Key ''path'']
      (attrs (frontendRoute
         \<lparr>albControllerPolicyText = ''{}'', backendServerScript = ''node server.js'',
          indexHtml = ''<html></html>''\<rparr>
         \<lparr>region = ''us-west-2'', defaultVpc = ''vpc-1'', subnets = [], files = []\<rparr>))
     = Some (Obj [(''type'', Str ''PathPrefix''), (''value'', Str ''/api'')])
   \<and> at [Key ''spec'', Key ''rules'', Idx 0, Key ''http'', Key ''paths'', Idx 0, Key ''path'']
        (attrs (appIngress Map.empty
           \<lparr>region = ''us-west-2'', defaultVpc = ''vpc-1'', subnets = [], files = []\<rparr>))
     = Some (Str ''/api'')"
  using api_rule_precedes_catch_all
    [of "\<lparr>albControllerPolicyText = ''{}'', backendServerScript = ''node server.js'',
          indexHtml = ''<html></html>''\<rparr>" Map.empty
        "\<lparr>region = ''us-west-2'', defaultVpc = ''vpc-1'', subnets = [], files = []\<rparr>"]
  by (intro conjI) (elim conjE, assumption)+

end
